theory Spec2Isabelle
  imports Main
begin

section \<open>Python values, errors and the observable world\<close>

text \<open>
  The three scripts of the repository (\<^verbatim>\<open>align_reads\<close>, \<^verbatim>\<open>germline_variant_calling_GATK\<close>,
  \<^verbatim>\<open>genotype_joining_GATK\<close>) drive external tools. What they compute themselves is
  strings (command lines, paths), tests on the file system, log records, printed lines and
  return codes. The model keeps exactly that:
  \<^item> the file system is what \<^verbatim>\<open>os.path.isfile\<close> and \<^verbatim>\<open>os.path.exists\<close> answer;
  \<^item> every log call, \<^verbatim>\<open>print\<close> and process launch is appended, in program order, to a
    list of events;
  \<^item> what an external program does (its exit code, the lines it writes to its two
    streams, the files it leaves) is a parameter, the environment \<open>env\<close>, and so is the
    way \<^verbatim>\<open>shlex.split\<close> cuts a command line into arguments.
  The operating system is taken to answer: a program can be launched, and \<^verbatim>\<open>os.makedirs\<close>
  and \<^verbatim>\<open>shlex.split\<close> return. Exceptions that Python raises from the scripts' own
  expressions (an unbound name, unpacking, indexing, \<^verbatim>\<open>str.format\<close>, a missing key) are
  results. The output of a process is the sequence of lines it writes, each to one of
  its two streams; a log record keeps the message and the arguments of the call as
  they are passed, unformatted.
\<close>

datatype py_error = NameError | ValueError | IndexError | KeyError | UnmodelledField

datatype pyval = PyStr string | PyBytes string | PyInt int

datatype level = INFO | ERROR

datatype logger = Logger string string

datatype event =
    Log logger level pyval "pyval list"
  | Print "pyval list"
  | Run "string list"
  | Call "string list"
  | System string

record filesystem =
  isfile :: "string \<Rightarrow> bool"
  path_exists :: "string \<Rightarrow> bool"

record world =
  disk :: filesystem
  events :: "event list"

datatype stream = Stdout | Stderr

record proc =
  returncode :: int
  writes :: "(stream \<times> string) list"

record env =
  shlex_split :: "string \<Rightarrow> string list"
  spawn :: "string list \<Rightarrow> filesystem \<Rightarrow> proc \<times> filesystem"
  shell :: "string \<Rightarrow> filesystem \<Rightarrow> int \<times> filesystem"

text \<open>The launches among a list of events, in order.\<close>

fun is_launch :: "event \<Rightarrow> bool" where
  "is_launch (Run _) = True"
| "is_launch (Call _) = True"
| "is_launch (System _) = True"
| "is_launch _ = False"

definition launched :: "event list \<Rightarrow> event list" where
  "launched es = filter is_launch es"

fun is_error_record :: "event \<Rightarrow> bool" where
  "is_error_record (Log _ ERROR _ _) = True"
| "is_error_record _ = False"

subsection \<open>Logging, printing, directories\<close>

definition logger_info :: "logger \<Rightarrow> pyval \<Rightarrow> pyval list \<Rightarrow> world \<Rightarrow> world" where
  "logger_info lg msg args w = w\<lparr>events := events w @ [Log lg INFO msg args]\<rparr>"

definition logger_error :: "logger \<Rightarrow> pyval \<Rightarrow> pyval list \<Rightarrow> world \<Rightarrow> world" where
  "logger_error lg msg args w = w\<lparr>events := events w @ [Log lg ERROR msg args]\<rparr>"

definition py_print :: "pyval list \<Rightarrow> world \<Rightarrow> world" where
  "py_print args w = w\<lparr>events := events w @ [Print args]\<rparr>"

text \<open>\<^verbatim>\<open>os.path.dirname\<close> of \<^verbatim>\<open>posixpath\<close>: the part up to the last slash, its trailing
  slashes removed unless it consists of slashes only.\<close>

definition dirname :: "string \<Rightarrow> string" where
  "dirname p =
     (let head = rev (dropWhile (\<lambda>c. c \<noteq> CHR ''/'') (rev p))
      in if head \<noteq> [] \<and> \<not> list_all (\<lambda>c. c = CHR ''/'') head
         then rev (dropWhile (\<lambda>c. c = CHR ''/'') (rev head))
         else head)"

definition makedirs :: "string \<Rightarrow> world \<Rightarrow> world" where
  "makedirs d w = w\<lparr>disk := (disk w)\<lparr>path_exists := (path_exists (disk w))(d := True)\<rparr>\<rparr>"

text \<open>\<^verbatim>\<open>if not os.path.exists(d): os.makedirs(d)\<close>, the first statement of every stage.\<close>

definition ensure_dir :: "string \<Rightarrow> world \<Rightarrow> world" where
  "ensure_dir d w = (if \<not> path_exists (disk w) d then makedirs d w else w)"

subsection \<open>Running a process\<close>

text \<open>
  \<^verbatim>\<open>subprocess.run(args, stdout=..., stderr=...)\<close>. The child writes lines to its two
  streams in some order. A stream set to \<open>PIPE\<close> is captured; standard error set to
  \<open>STDOUT\<close> is sent into whatever standard output is, so its lines are captured with
  those of standard output, in write order, and the \<^verbatim>\<open>stderr\<close> attribute of the result is
  \<^verbatim>\<open>None\<close>.
\<close>

datatype redirect = Inherit | PIPE | STDOUT

record completed_process =
  cp_returncode :: int
  cp_stdout :: "string list option"
  cp_stderr :: "string list option"

definition captured ::
  "redirect \<Rightarrow> redirect \<Rightarrow> (stream \<times> string) list \<Rightarrow> string list option \<times> string list option" where
  "captured so se ws =
     (if so = PIPE
      then Some (map snd (filter (\<lambda>sl. fst sl = Stdout \<or> (fst sl = Stderr \<and> se = STDOUT)) ws))
      else None,
      if se = PIPE then Some (map snd (filter (\<lambda>sl. fst sl = Stderr) ws)) else None)"

definition subprocess_run ::
  "env \<Rightarrow> string list \<Rightarrow> redirect \<Rightarrow> redirect \<Rightarrow> world \<Rightarrow> completed_process \<times> world" where
  "subprocess_run e args so se w =
     (let (p, d) = spawn e args (disk w);
          (out, err) = captured so se (writes p)
      in (\<lparr>cp_returncode = returncode p, cp_stdout = out, cp_stderr = err\<rparr>,
          w\<lparr>disk := d, events := events w @ [Run args]\<rparr>))"

text \<open>\<^verbatim>\<open>subprocess.call(args)\<close>: both streams inherited, the exit code returned.\<close>

definition subprocess_call :: "env \<Rightarrow> string list \<Rightarrow> world \<Rightarrow> int \<times> world" where
  "subprocess_call e args w =
     (let (p, d) = spawn e args (disk w)
      in (returncode p, w\<lparr>disk := d, events := events w @ [Call args]\<rparr>))"

text \<open>\<^verbatim>\<open>os.system(command)\<close>: the command line goes to the shell, the status is returned.\<close>

definition os_system :: "env \<Rightarrow> string \<Rightarrow> world \<Rightarrow> int \<times> world" where
  "os_system e command w =
     (let (st, d) = shell e command (disk w)
      in (st, w\<lparr>disk := d, events := events w @ [System command]\<rparr>))"

text \<open>The two \<^verbatim>\<open>for\<close> loops of \<^verbatim>\<open>run_shell_command\<close>.\<close>

fun log_lines :: "logger \<Rightarrow> level \<Rightarrow> string list \<Rightarrow> world \<Rightarrow> world" where
  "log_lines lg lv [] w = w"
| "log_lines lg lv (l # ls) w =
     log_lines lg lv ls
       (case lv of INFO \<Rightarrow> logger_info lg (PyBytes l) [] w | ERROR \<Rightarrow> logger_error lg (PyBytes l) [] w)"

text \<open>\<^verbatim>\<open>run_shell_command\<close>, word for word the same in the variant-calling and the
  genotype-joining script.\<close>

definition run_shell_command :: "env \<Rightarrow> string \<Rightarrow> logger \<Rightarrow> logger \<Rightarrow> world \<Rightarrow> int \<times> world" where
  "run_shell_command e command_line logger_process logger_errors w =
     (let command_line_args = shlex_split e command_line;
          w1 = logger_info logger_process (PyStr command_line) [] w;
          (command_line_process, w2) = subprocess_run e command_line_args PIPE STDOUT w1;
          w3 = (case cp_stdout command_line_process of
                  None \<Rightarrow> w2
                | Some stdout_lines \<Rightarrow> log_lines logger_process INFO stdout_lines w2);
          w4 = (case cp_stderr command_line_process of
                  None \<Rightarrow> w3
                | Some stderr_lines \<Rightarrow> log_lines logger_errors ERROR stderr_lines w3)
      in (cp_returncode command_line_process, w4))"

section \<open>Python string operations used by the scripts\<close>

text \<open>\<^verbatim>\<open>s.split(sep)[0]\<close> for a separator of one or more characters: the text before
  the first occurrence of \<open>sep\<close>, the whole of \<open>s\<close> when there is none.\<close>

fun split_first :: "string \<Rightarrow> string \<Rightarrow> string" where
  "split_first sep [] = []"
| "split_first sep (c # cs) =
     (if take (length sep) (c # cs) = sep then [] else c # split_first sep cs)"

text \<open>\<^verbatim>\<open>s.split(d)\<close> for a separator of one character: never the empty list.\<close>

fun split_char :: "char \<Rightarrow> string \<Rightarrow> string list" where
  "split_char d [] = [[]]"
| "split_char d (c # cs) =
     (case split_char d cs of
        [] \<Rightarrow> [[c]]
      | piece # pieces \<Rightarrow> if c = d then [] # piece # pieces else (c # piece) # pieces)"

text \<open>The characters \<^verbatim>\<open>str.strip()\<close> and \<^verbatim>\<open>str.split()\<close> treat as white space, among the
  single-byte ones: tab, line feed, vertical tab, form feed, carriage return, the four
  separators \<open>0x1C\<close> to \<open>0x1F\<close>, and the space.\<close>

definition is_space :: "char \<Rightarrow> bool" where
  "is_space c = (let n = (of_char c :: nat) in (9 \<le> n \<and> n \<le> 13) \<or> (28 \<le> n \<and> n \<le> 32))"

definition str_strip :: "string \<Rightarrow> string" where
  "str_strip s = rev (dropWhile is_space (rev (dropWhile is_space s)))"

text \<open>\<^verbatim>\<open>s.split()\<close>: the maximal runs of characters that are not white space. The
  second argument is the run being read, reversed.\<close>

fun split_ws_from :: "string \<Rightarrow> string \<Rightarrow> string list" where
  "split_ws_from word [] = (if word = [] then [] else [rev word])"
| "split_ws_from word (c # cs) =
     (if is_space c
      then (if word = [] then split_ws_from [] cs else rev word # split_ws_from [] cs)
      else split_ws_from (c # word) cs)"

definition str_split_ws :: "string \<Rightarrow> string list" where
  "str_split_ws s = split_ws_from [] s"

text \<open>\<^verbatim>\<open>sep.join(xs)\<close>.\<close>

fun str_join :: "string \<Rightarrow> string list \<Rightarrow> string" where
  "str_join sep [] = []"
| "str_join sep [x] = x"
| "str_join sep (x # y # ys) = x @ sep @ str_join sep (y # ys)"

subsection \<open>\<^verbatim>\<open>str.format\<close> with positional arguments\<close>

text \<open>
  \<^verbatim>\<open>template.format(a0, a1, ...)\<close> with string arguments, read from left to right as
  Python does: \<^verbatim>\<open>{{\<close> and \<^verbatim>\<open>}}\<close> stand for one brace, \<^verbatim>\<open>{n}\<close> with decimal \<open>n\<close>
  is replaced by argument \<open>n\<close> (\<^verbatim>\<open>IndexError\<close> when there is none), a closing brace on its
  own or a field that the template ends in raises \<^verbatim>\<open>ValueError\<close>. Every other replacement
  field (automatic numbering, names, attributes, conversions, format specifications,
  nested fields, an index of more than 18 digits) is outside the model: the result is
  \<open>UnmodelledField\<close>, about which nothing is claimed.
\<close>

datatype format_state = Literal | Opened | InField string | Closing

definition is_digit :: "char \<Rightarrow> bool" where
  "is_digit c = (let n = (of_char c :: nat) in 48 \<le> n \<and> n \<le> 57)"

definition field_index :: "string \<Rightarrow> nat" where
  "field_index f = foldl (\<lambda>n c. 10 * n + (of_char c - 48)) 0 f"

fun format_scan :: "string list \<Rightarrow> format_state \<Rightarrow> string \<Rightarrow> py_error + string" where
  "format_scan args Literal [] = Inr []"
| "format_scan args Literal (c # cs) =
     (if c = CHR ''{'' then format_scan args Opened cs
      else if c = CHR ''}'' then format_scan args Closing cs
      else map_sum id (Cons c) (format_scan args Literal cs))"
| "format_scan args Opened [] = Inl ValueError"
| "format_scan args Opened (c # cs) =
     (if c = CHR ''{'' then map_sum id (Cons c) (format_scan args Literal cs)
      else if c = CHR ''}'' then Inl UnmodelledField
      else format_scan args (InField [c]) cs)"
| "format_scan args (InField f) [] = Inl ValueError"
| "format_scan args (InField f) (c # cs) =
     (if c = CHR ''}'' then
        (if list_all is_digit f \<and> length f \<le> 18 then
           (if field_index f < length args
            then map_sum id (\<lambda>rest. args ! field_index f @ rest) (format_scan args Literal cs)
            else Inl IndexError)
         else Inl UnmodelledField)
      else if c = CHR ''{'' then Inl UnmodelledField
      else format_scan args (InField (f @ [c])) cs)"
| "format_scan args Closing [] = Inl ValueError"
| "format_scan args Closing (c # cs) =
     (if c = CHR ''}'' then map_sum id (Cons c) (format_scan args Literal cs)
      else Inl ValueError)"

definition py_format :: "string \<Rightarrow> string list \<Rightarrow> py_error + string" where
  "py_format template args = format_scan args Literal template"

text \<open>
  Where a script formats a template that is a literal of the source, with as many
  arguments as the template has fields, the definitions below write the result as the
  concatenation it is (lemmas \<open>format_command_sort\<close> and its neighbours check this
  against \<open>py_format\<close>). \<open>gather_gvcfs\<close> formats a template it has built from file names,
  and goes through \<open>py_format\<close>. Configuration values that end up in a command line
  (thread count, confidence threshold) are taken in the text form \<^verbatim>\<open>str\<close> gives them.
\<close>

section \<open>The sorting stage\<close>

definition command_sort :: "string \<Rightarrow> string \<Rightarrow> string \<Rightarrow> string" where
  "command_sort picard_dir input_sam output_bam =
     ''java -jar '' @ picard_dir @ '' SortSam INPUT='' @ input_sam @ '' OUTPUT='' @ output_bam
       @ '' SORT_ORDER=coordinate''"

definition command_index :: "string \<Rightarrow> string \<Rightarrow> string" where
  "command_index picard_dir output_bam =
     ''java -jar '' @ picard_dir @ '' BuildBamIndex INPUT='' @ output_bam"

definition sort_sam_picard ::
  "env \<Rightarrow> string \<Rightarrow> string \<Rightarrow> string \<Rightarrow> logger \<Rightarrow> logger \<Rightarrow> world \<Rightarrow> int \<times> world" where
  "sort_sam_picard e picard_dir input_sam output_bam logger_picard_process logger_picard_errors w =
     (let out_dir = dirname output_bam;
          w1 = ensure_dir out_dir w
      in if \<not> isfile (disk w1) input_sam then
           (let w2 = logger_error logger_picard_errors (PyStr ''%s does not exists!'') [PyStr input_sam] w1;
                w3 = py_print [PyStr ''%s does not exists!'', PyStr input_sam] w2
            in (1, w3))
         else
           (let (returncode_sort, w2) =
                  run_shell_command e (command_sort picard_dir input_sam output_bam)
                    logger_picard_process logger_picard_errors w1;
                w3 = logger_info logger_picard_process
                       (PyStr ''Finished sorting SAM with return value %f.'') [PyInt returncode_sort] w2
            in if returncode_sort \<noteq> 0 then
                 (let w4 = logger_error logger_picard_errors
                             (PyStr ''Picard sorting returns non-zero value.'') [] w3;
                      w5 = py_print [PyStr (''Picard sorting returns non-zero value! Check the input format ''
                                          @ ''and/or the logging files.'')] w4
                  in (1, w5))
               else
                 (let w4 = logger_info logger_picard_process (PyStr ''Finished Picard sorting step.'') [] w3;
                      w5 = py_print [PyStr ''Finished Picard sorting step.''] w4;
                      (returncode_index, w6) =
                        run_shell_command e (command_index picard_dir output_bam)
                          logger_picard_process logger_picard_errors w5
                  in if returncode_index \<noteq> 0 then
                       (let w7 = logger_error logger_picard_errors
                                   (PyStr ''Picard indexing returns non-zero value.'') [] w6;
                            w8 = py_print [PyStr (''Picard indexing returns non-zero value! Check the input ''
                                                @ ''format and/or the logging files.'')] w7
                        in (1, w8))
                     else (0, w6))))"

section \<open>The base-recalibration stage\<close>

text \<open>\<^verbatim>\<open>for knownsite in knownsites: command += ' -knownSites ' + knownsite\<close>.\<close>

definition add_knownsites :: "string \<Rightarrow> string list \<Rightarrow> string" where
  "add_knownsites command knownsites =
     foldl (\<lambda>cmd knownsite. cmd @ '' -knownSites '' @ knownsite) command knownsites"

definition prefix_name :: "string \<Rightarrow> string" where
  "prefix_name sorted_bam = split_first ''_aligned'' sorted_bam"

definition output_recal_table :: "string \<Rightarrow> string \<Rightarrow> string" where
  "output_recal_table align_dir sorted_bam = align_dir @ prefix_name sorted_bam @ ''_recal.table''"

definition output_post_recal_table :: "string \<Rightarrow> string \<Rightarrow> string" where
  "output_post_recal_table align_dir sorted_bam =
     align_dir @ prefix_name sorted_bam @ ''_recal_post.table''"

definition output_recal_bam :: "string \<Rightarrow> string \<Rightarrow> string" where
  "output_recal_bam align_dir sorted_bam = align_dir @ prefix_name sorted_bam @ ''_recal.bam''"

text \<open>The four command lines. In the source the templates of steps 1 to 3 are split over
  two lines inside the string literal, which leaves the second line's indentation in it.\<close>

definition command_covariation_analysis ::
  "string \<Rightarrow> string \<Rightarrow> string \<Rightarrow> string \<Rightarrow> string list \<Rightarrow> string" where
  "command_covariation_analysis gatk_dir ref_fa_file align_dir sorted_bam knownsites =
     add_knownsites
       (''java -jar '' @ gatk_dir @ '' -T BaseRecalibrator     -R '' @ ref_fa_file
          @ '' -I '' @ (align_dir @ sorted_bam))
       knownsites
     @ '' -o '' @ output_recal_table align_dir sorted_bam"

definition command_covariation_analysis2 ::
  "string \<Rightarrow> string \<Rightarrow> string \<Rightarrow> string \<Rightarrow> string list \<Rightarrow> string" where
  "command_covariation_analysis2 gatk_dir ref_fa_file align_dir sorted_bam knownsites =
     add_knownsites
       (''java -jar '' @ gatk_dir @ '' -T BaseRecalibrator -R '' @ ref_fa_file
          @ ''     -I '' @ (align_dir @ sorted_bam))
       knownsites
     @ '' -BQSR '' @ output_recal_table align_dir sorted_bam
     @ '' -o '' @ output_post_recal_table align_dir sorted_bam"

definition command_plot :: "string \<Rightarrow> string \<Rightarrow> string \<Rightarrow> string \<Rightarrow> string" where
  "command_plot gatk_dir ref_fa_file align_dir sorted_bam =
     ''java -jar '' @ gatk_dir @ '' -T AnalyzeCovariates -R '' @ ref_fa_file
       @ '' -before '' @ output_recal_table align_dir sorted_bam
       @ '' -after '' @ output_post_recal_table align_dir sorted_bam
       @ ''     -plots '' @ (align_dir @ prefix_name sorted_bam @ ''_recal_plots.pdf'')"

definition command_recalibrate :: "string \<Rightarrow> string \<Rightarrow> string \<Rightarrow> string \<Rightarrow> string" where
  "command_recalibrate gatk_dir ref_fa_file align_dir sorted_bam =
     ''java -jar '' @ gatk_dir @ '' -T PrintReads -R '' @ ref_fa_file
       @ '' -I '' @ (align_dir @ sorted_bam)
       @ '' -BQSR '' @ output_recal_table align_dir sorted_bam
       @ '' -o '' @ output_recal_bam align_dir sorted_bam"

text \<open>A failed step: the message goes to the error log, is printed, and the stage
  returns 1.\<close>

definition bqsr_failed :: "logger \<Rightarrow> string \<Rightarrow> world \<Rightarrow> int \<times> world" where
  "bqsr_failed logger_gatk_errors message w =
     (1, py_print [PyStr message] (logger_error logger_gatk_errors (PyStr message) [] w))"

text \<open>\<open>sorted_bam\<close> is the file name the caller passes; the function itself puts
  \<open>align_dir\<close> in front of it.\<close>

definition recalibrate_base_quality_scores ::
  "env \<Rightarrow> string \<Rightarrow> string \<Rightarrow> string \<Rightarrow> string list \<Rightarrow> string \<Rightarrow> logger \<Rightarrow> logger
     \<Rightarrow> world \<Rightarrow> int \<times> world" where
  "recalibrate_base_quality_scores e gatk_dir ref_fa_file sorted_bam knownsites align_dir
       logger_gatk_process logger_gatk_errors w =
     (let w1 = ensure_dir align_dir w
      in if \<not> isfile (disk w1) (align_dir @ sorted_bam) then
           (let w2 = logger_error logger_gatk_errors (PyStr ''%s does not exists!'')
                       [PyStr (align_dir @ sorted_bam)] w1;
                w3 = py_print [PyStr ''%s does not exists!'', PyStr (align_dir @ sorted_bam)] w2
            in (1, w3))
         else
           (let (returncode_covariation_analysis, w2) =
                  run_shell_command e
                    (command_covariation_analysis gatk_dir ref_fa_file align_dir sorted_bam knownsites)
                    logger_gatk_process logger_gatk_errors w1
            in if returncode_covariation_analysis \<noteq> 0 then
                 bqsr_failed logger_gatk_errors ''BQSR failed at covariation analysis stage.'' w2
               else
                 (let (returncode_covariation_analysis2, w3) =
                        run_shell_command e
                          (command_covariation_analysis2 gatk_dir ref_fa_file align_dir sorted_bam
                             knownsites)
                          logger_gatk_process logger_gatk_errors w2
                  in if returncode_covariation_analysis2 \<noteq> 0 then
                       bqsr_failed logger_gatk_errors
                         ''BQSR failed at the second pass for covariation analysis.'' w3
                     else
                       (let (returncode_plot, w4) =
                              run_shell_command e
                                (command_plot gatk_dir ref_fa_file align_dir sorted_bam)
                                logger_gatk_process logger_gatk_errors w3
                        in if returncode_plot \<noteq> 0 then
                             bqsr_failed logger_gatk_errors ''BQSR failed at the ploting stage.'' w4
                           else
                             (let (returncode_recalibrate, w5) =
                                    run_shell_command e
                                      (command_recalibrate gatk_dir ref_fa_file align_dir sorted_bam)
                                      logger_gatk_process logger_gatk_errors w4
                              in if returncode_recalibrate \<noteq> 0 then
                                   bqsr_failed logger_gatk_errors
                                     ''BQSR failed at the final application stage.'' w5
                                 else (0, w5))))))"

section \<open>The variant-calling stage\<close>

definition samp_name :: "string \<Rightarrow> string" where
  "samp_name recal_bam = split_first ''_recal.bam'' (last (split_char CHR ''/'' recal_bam))"

definition raw_variants_file :: "string \<Rightarrow> string \<Rightarrow> string" where
  "raw_variants_file out_dir recal_bam = out_dir @ samp_name recal_bam @ ''_raw_variants.g.vcf''"

definition command_call_var :: "string \<Rightarrow> string \<Rightarrow> string \<Rightarrow> string \<Rightarrow> string \<Rightarrow> string" where
  "command_call_var gatk_dir ref_fa_file recal_bam threshold_call out_dir =
     ''java -jar '' @ gatk_dir @ '' -T HaplotypeCaller -R '' @ ref_fa_file @ '' -I '' @ recal_bam
       @ '' --genotyping_mode DISCOVERY     -stand_call_conf '' @ threshold_call
       @ '' --emitRefConfidence GVCF -o '' @ raw_variants_file out_dir recal_bam"

definition call_variants ::
  "env \<Rightarrow> string \<Rightarrow> string \<Rightarrow> string \<Rightarrow> string \<Rightarrow> string \<Rightarrow> logger \<Rightarrow> logger
     \<Rightarrow> world \<Rightarrow> int \<times> world" where
  "call_variants e gatk_dir ref_fa_file recal_bam threshold_call out_dir
       logger_gatk_process logger_gatk_errors w =
     (let w1 = ensure_dir out_dir w
      in if \<not> isfile (disk w1) recal_bam then
           (let w2 = logger_error logger_gatk_errors (PyStr ''%s does not exists!'') [PyStr recal_bam] w1;
                w3 = py_print [PyStr ''%s does not exists!'', PyStr recal_bam] w2
            in (1, w3))
         else
           (let (returncode_call_variants, w2) =
                  run_shell_command e
                    (command_call_var gatk_dir ref_fa_file recal_bam threshold_call out_dir)
                    logger_gatk_process logger_gatk_errors w1
            in if returncode_call_variants \<noteq> 0 then
                 (let w3 = logger_error logger_gatk_errors (PyStr ''HaplotypeCaller failed.'') [] w2;
                      w4 = py_print [PyStr ''HaplotypeCaller failed.''] w3
                  in (1, w4))
               else (0, w2)))"

section \<open>Configuration and loggers\<close>

text \<open>
  The scripts read \<^verbatim>\<open>configure.yaml\<close> into nested dictionaries. The record holds the
  entries they look up; the libraries keep the order of the file, and the one lookup
  by a key that comes from the command line can fail.
\<close>

record library =
  sample_name :: string
  library_id :: string
  location :: string
  read1 :: string
  read2 :: string

record config =
  alignment_software :: string
  alignment_ref_index :: string
  alignment_output_dir :: string
  alignment_num_threads :: string
  reference_fa_file :: string
  input_dir :: string
  libraries :: "(string \<times> library) list"
  logging :: string
  sorting_software :: string
  snv_calling_software :: string
  snv_calling_threshold :: string
  snv_calling_output_dir :: string
  snv_calling_knownsites :: "(string \<times> string) list"
  genotype_joining_output_name :: string

text \<open>A logger is known by its name and the file its handler writes
  (\<^verbatim>\<open>setup_logger(name, log_file, formatter)\<close>).\<close>

definition setup_logger :: "string \<Rightarrow> string \<Rightarrow> logger" where
  "setup_logger name log_file = Logger name log_file"

definition store_logs_bwa :: "string \<Rightarrow> logger \<times> logger" where
  "store_logs_bwa log_dir =
     (setup_logger ''BWA Running Messages'' (log_dir @ ''/bwa_process.log''),
      setup_logger ''Errors & Warnings of BWA'' (log_dir @ ''/bwa_errors.log''))"

definition store_logs_gatk :: "string \<Rightarrow> logger \<times> logger" where
  "store_logs_gatk log_dir =
     (setup_logger ''GATK Running Messages'' (log_dir @ ''/gatk_process.log''),
      setup_logger ''Errors & Warnings of GATK'' (log_dir @ ''/gatk_errors.log''))"

definition store_logs :: "string \<Rightarrow> logger \<times> logger \<times> logger \<times> logger" where
  "store_logs log_dir =
     (setup_logger ''Picard Running Messages'' (log_dir @ ''/picard_process.log''),
      setup_logger ''Errors & Warnings of Picard'' (log_dir @ ''/picard_errors.log''),
      setup_logger ''GATK Running Messages'' (log_dir @ ''/gatk_process.log''),
      setup_logger ''Errors & Warnings of GATK'' (log_dir @ ''/gatk_errors.log''))"

section \<open>The orchestrator of the variant-calling script\<close>

text \<open>\<^verbatim>\<open>main\<close> of \<^verbatim>\<open>germline_variant_calling_GATK\<close>. It returns 1, 2 or 3 from its three
  \<^verbatim>\<open>return\<close> statements and falls off its end otherwise, which is \<^verbatim>\<open>None\<close>.\<close>

definition main_germline ::
  "env \<Rightarrow> config \<Rightarrow> string list \<Rightarrow> world \<Rightarrow> (py_error + int option) \<times> world" where
  "main_germline e config argv w =
     (let picard_dir = sorting_software config;
          gatk_dir = snv_calling_software config;
          ref_seq = reference_fa_file config;
          align_dir = input_dir config @ alignment_output_dir config;
          thres_call = snv_calling_threshold config;
          out_dir = snv_calling_output_dir config;
          knownsites = map snd (snv_calling_knownsites config);
          log_dir = logging config;
          (logger_picard_process, logger_picard_errors, logger_gatk_process, logger_gatk_errors) =
            store_logs log_dir
      in case argv of
           _ # lib_key # _ \<Rightarrow>
             (case map_of (libraries config) lib_key of
                None \<Rightarrow> (Inl KeyError, w)
              | Some lib \<Rightarrow>
                  (let input_sam = align_dir @ sample_name lib @ ''_aligned.sam'';
                       sorted_bam = align_dir @ sample_name lib @ ''_aligned_sorted.bam'';
                       (returncode_picard, w1) =
                         sort_sam_picard e picard_dir input_sam sorted_bam
                           logger_picard_process logger_picard_errors w
                   in if returncode_picard \<noteq> 0 then (Inr (Some 1), w1)
                      else
                        (let sorted_bam = sample_name lib @ ''_aligned_sorted.bam'';
                             (returncode_bqsr, w2) =
                               recalibrate_base_quality_scores e gatk_dir ref_seq sorted_bam
                                 knownsites align_dir logger_gatk_process logger_gatk_errors w1
                         in if returncode_bqsr \<noteq> 0 then (Inr (Some 2), w2)
                            else
                              (let recal_bam = align_dir @ sample_name lib @ ''_recal.bam'';
                                   (returncode_var, w3) =
                                     call_variants e gatk_dir ref_seq recal_bam thres_call out_dir
                                       logger_gatk_process logger_gatk_errors w2
                               in if returncode_var \<noteq> 0 then (Inr (Some 3), w3)
                                  else (Inr None, w3)))))
         | _ \<Rightarrow> (Inl IndexError, w))"

section \<open>The genotype-joining stage\<close>

definition template_joint :: "string list \<Rightarrow> string" where
  "template_joint gvcf_list =
     ''java -jar {0} -T GenotypeGVCFs -R {1} -stand_call_conf {2} --variant ''
       @ str_join '' --variant '' gvcf_list
       @ '' -o {3}''"

definition gather_gvcfs ::
  "env \<Rightarrow> string \<Rightarrow> string \<Rightarrow> string list \<Rightarrow> string \<Rightarrow> string \<Rightarrow> string \<Rightarrow> logger \<Rightarrow> logger
     \<Rightarrow> world \<Rightarrow> (py_error + int) \<times> world" where
  "gather_gvcfs e gatk_dir ref_seq gvcf_list variants_dir out_name thres_call
       logger_gatk_process logger_gatk_errors w =
     (if \<not> path_exists (disk w) variants_dir then
        (let w1 = logger_error logger_gatk_errors (PyStr ''The directory %s does not exist!'')
                    [PyStr variants_dir] w;
             w2 = py_print [PyStr (''ERROR:: The directory %s does not exist! Please check the ''
                                   @ ''correctness of input. Make sure the GVCF files are contained ''
                                   @ ''in the directory.'')] w1
         in (Inr 1, w2))
      else
        (case py_format (template_joint gvcf_list)
                [gatk_dir, ref_seq, thres_call, variants_dir @ out_name @ ''.vcf''] of
           Inl err \<Rightarrow> (Inl err, w)
         | Inr command_joint \<Rightarrow>
             (let (returncode_joint, w1) =
                    run_shell_command e command_joint logger_gatk_process logger_gatk_errors w
              in if returncode_joint \<noteq> 0 then
                   (let w2 = logger_error logger_gatk_errors
                               (PyStr ''GVCFs joining returns non-zero value.'') [] w1;
                        w3 = py_print [PyStr ''GVCFs joining returns non-zero value.''] w2
                    in (Inr 1, w3))
                 else (Inr 0, w1))))"

text \<open>\<^verbatim>\<open>main\<close> of \<^verbatim>\<open>genotype_joining_GATK\<close>: the files it asks the stage to join.\<close>

definition gvcf_list_of :: "config \<Rightarrow> string list" where
  "gvcf_list_of config =
     (let variants_dir = input_dir config @ snv_calling_output_dir config;
          sample_list = map (\<lambda>entry. sample_name (snd entry)) (libraries config)
      in map (\<lambda>x. variants_dir @ x @ ''.g.vcf'') sample_list)"

definition main_joining :: "env \<Rightarrow> config \<Rightarrow> world \<Rightarrow> (py_error + int option) \<times> world" where
  "main_joining e config w =
     (let gatk_dir = snv_calling_software config;
          ref_seq = reference_fa_file config;
          variants_dir = input_dir config @ snv_calling_output_dir config;
          log_dir = logging config;
          out_name = genotype_joining_output_name config;
          thres_call = snv_calling_threshold config;
          gvcf_list = gvcf_list_of config;
          (logger_gatk_process, logger_gatk_errors) = store_logs_gatk log_dir
      in case gather_gvcfs e gatk_dir ref_seq gvcf_list variants_dir out_name thres_call
                logger_gatk_process logger_gatk_errors w of
           (Inl err, w1) \<Rightarrow> (Inl err, w1)
         | (Inr returncode_joint, w1) \<Rightarrow> (Inr None, w1))"

section \<open>The alignment stage\<close>

definition index_files_extensions :: "string list" where
  "index_files_extensions = [''.pac'', ''.amb'', ''.ann'', ''.bwt'', ''.sa'']"

text \<open>The loop that sets \<^verbatim>\<open>genome_indexed = False\<close> and breaks at the first index file
  that is missing.\<close>

fun genome_indexed :: "filesystem \<Rightarrow> string \<Rightarrow> string list \<Rightarrow> bool" where
  "genome_indexed d ref_index_name [] = True"
| "genome_indexed d ref_index_name (extension # extensions) =
     (if \<not> isfile d (ref_index_name @ extension) then False
      else genome_indexed d ref_index_name extensions)"

definition bwa_index_command :: "string \<Rightarrow> string \<Rightarrow> string \<Rightarrow> string" where
  "bwa_index_command bwa_dir ref_index_name ref_fa_file =
     bwa_dir @ '' index -p '' @ ref_index_name @ '' '' @ ref_fa_file"

definition bwa_align_command ::
  "string \<Rightarrow> string \<Rightarrow> string \<Rightarrow> string \<Rightarrow> string \<Rightarrow> string \<Rightarrow> string \<Rightarrow> string" where
  "bwa_align_command bwa_dir n_threads read_group ref_index_name r1 r2 out_file =
     bwa_dir @ '' mem -t '' @ n_threads @ '' -M -R '' @ read_group @ '' '' @ ref_index_name
       @ '' '' @ r1 @ '' '' @ r2 @ '' > '' @ out_file"

text \<open>\<^verbatim>\<open>align_reads_bwa\<close> has one bare \<^verbatim>\<open>return\<close> and otherwise falls off its end: its
  value is \<^verbatim>\<open>None\<close> on every path. The exit codes of both tools are dropped.\<close>

definition align_reads_bwa ::
  "env \<Rightarrow> string \<Rightarrow> string \<Rightarrow> string \<Rightarrow> string \<Rightarrow> string \<Rightarrow> string \<Rightarrow> string \<Rightarrow> string
     \<Rightarrow> logger \<Rightarrow> logger \<Rightarrow> world \<Rightarrow> int option \<times> world" where
  "align_reads_bwa e bwa_dir ref_fa_file ref_index_name r1 r2 out_file n_threads read_group
       logger_bwa_process logger_bwa_errors w =
     (let out_dir = dirname out_file;
          w1 = ensure_dir out_dir w
      in if \<not> isfile (disk w1) r1 then
           (None, logger_error logger_bwa_errors (PyStr ''%s does not exists!'') [PyStr r1] w1)
         else
           (let w2 =
                  (if \<not> genome_indexed (disk w1) ref_index_name index_files_extensions then
                     (let w21 = logger_info logger_bwa_process
                                  (PyStr (''Genome index files are not detected. ''
                                          @ ''Running BWA to generate the required indices.'')) [] w1;
                          w22 = logger_info logger_bwa_process
                                  (PyStr (bwa_index_command bwa_dir ref_index_name ref_fa_file)) [] w21;
                          (returncode_index, w23) =
                            subprocess_call e
                              (str_split_ws (bwa_index_command bwa_dir ref_index_name ref_fa_file)) w22
                      in logger_info logger_bwa_process
                           (PyStr ''BWA genome index files are generated.'') [] w23)
                   else logger_info logger_bwa_process (PyStr ''BWA genome index files exist.'') [] w1);
                w3 = logger_info logger_bwa_process (PyStr ''Running paired end mapping.'') [] w2;
                w4 = logger_info logger_bwa_process
                       (PyStr (bwa_align_command bwa_dir n_threads read_group ref_index_name r1 r2
                                 out_file)) [] w3;
                (status, w5) =
                  os_system e
                    (bwa_align_command bwa_dir n_threads read_group ref_index_name r1 r2 out_file) w4;
                w6 = logger_info logger_bwa_process (PyStr ''Paired end mapping finished.'') [] w5
            in (None, w6)))"

subsection \<open>The coordinate remap\<close>

text \<open>
  \<^verbatim>\<open>modify_sam_location\<close>, on the rows of the input file; the second component is what has
  been written to the output file. For a mapped record the source unpacks the three
  parts of the reference name and then evaluates \<^verbatim>\<open>int(v[3])\<close>. No assignment to \<^verbatim>\<open>v\<close>
  exists in the function or the module, so this raises \<^verbatim>\<open>NameError\<close>; the statements after
  it (the write of the rewritten record and the two \<^verbatim>\<open>close()\<close> calls inside the loop)
  are never reached.
\<close>

fun modify_sam_location :: "string list \<Rightarrow> string list \<Rightarrow> (py_error + unit) \<times> string list" where
  "modify_sam_location [] written = (Inr (), written)"
| "modify_sam_location (row # rows) written =
     (case row of
        [] \<Rightarrow> (Inl IndexError, written)
      | c # _ \<Rightarrow>
          if c = CHR ''@'' then modify_sam_location rows (written @ [row])
          else
            (let items = str_split_ws (str_strip row)
             in if length items \<le> 2 then (Inl IndexError, written)
                else if items ! 2 = ''*'' then modify_sam_location rows (written @ [row])
                else
                  (case split_char CHR ''_'' (items ! 2) of
                     [chrom, start, stop] \<Rightarrow> (Inl NameError, written)
                   | _ \<Rightarrow> (Inl ValueError, written))))"

subsection \<open>\<^verbatim>\<open>main\<close> of the alignment script\<close>

definition read_group_of :: "string \<Rightarrow> string \<Rightarrow> string" where
  "read_group_of sample_id sample =
     [CHR 0x27] @ ''@RG'' @ [CHR 0x5C] @ ''tID:'' @ sample_id @ [CHR 0x5C] @ ''tPL:Illumina''
       @ [CHR 0x5C] @ ''tLB:YN'' @ [CHR 0x5C] @ ''tSM:'' @ sample @ [CHR 0x27]"

definition aligned_sam_of :: "config \<Rightarrow> library \<Rightarrow> string" where
  "aligned_sam_of config lib =
     (input_dir config @ alignment_output_dir config) @ sample_name lib @ ''_aligned.sam''"

text \<open>\<open>elapsed\<close> is the text of the measured run time in minutes.\<close>

definition main_align ::
  "env \<Rightarrow> config \<Rightarrow> string list \<Rightarrow> string \<Rightarrow> world \<Rightarrow> (py_error + int option) \<times> world" where
  "main_align e config argv elapsed w =
     (let bwa_dir = alignment_software config;
          ref_index_name = alignment_ref_index config;
          ref_fa_file = reference_fa_file config;
          source = input_dir config;
          log_dir = logging config;
          (logger_bwa_process, logger_bwa_errors) = store_logs_bwa log_dir;
          n_threads = alignment_num_threads config
      in case argv of
           _ # lib_key # _ \<Rightarrow>
             (case map_of (libraries config) lib_key of
                None \<Rightarrow> (Inl KeyError, w)
              | Some lib \<Rightarrow>
                  (let sample = sample_name lib;
                       sample_id = library_id lib;
                       w1 = logger_info logger_bwa_process
                              (PyStr (''Start alignment for data in '' @ sample @ ''.'')) [] w;
                       filename1 = source @ location lib @ sample_id @ ''-'' @ sample;
                       w2 = py_print [PyStr filename1] w1;
                       r1 = filename1 @ read1 lib;
                       r2 = filename1 @ read2 lib;
                       out_file = aligned_sam_of config lib;
                       read_group = read_group_of sample_id sample;
                       (none, w3) =
                         align_reads_bwa e bwa_dir ref_fa_file ref_index_name r1 r2 out_file
                           n_threads read_group logger_bwa_process logger_bwa_errors w2;
                       finish = ''Finish alignment for library '' @ lib_key @ '' after '' @ elapsed
                                  @ '' min.'';
                       w4 = logger_info logger_bwa_process (PyStr finish) [] w3;
                       w5 = py_print [PyStr finish] w4
                   in (Inr None, w5)))
         | _ \<Rightarrow> (Inl IndexError, w))"

section \<open>Sample environments and inputs\<close>

text \<open>An environment in which command lines are split at white space and a process
  leaves the disk as it is; \<open>behaviour\<close> gives, for an argument list, the exit code and
  the lines written.\<close>

definition tools :: "(string list \<Rightarrow> proc) \<Rightarrow> env" where
  "tools behaviour =
     \<lparr>shlex_split = str_split_ws,
      spawn = (\<lambda>args d. (behaviour args, d)),
      shell = (\<lambda>command d. (0, d))\<rparr>"

definition silent :: "int \<Rightarrow> proc" where
  "silent code = \<lparr>returncode = code, writes = []\<rparr>"

text \<open>Every tool succeeds; every tool fails; the tools named by \<open>bad\<close> fail.\<close>

definition env_ok :: env where
  "env_ok = tools (\<lambda>args. silent 0)"

definition env_failing :: env where
  "env_failing = tools (\<lambda>args. silent 1)"

definition env_failing_at :: "(string list \<Rightarrow> bool) \<Rightarrow> env" where
  "env_failing_at bad = tools (\<lambda>args. silent (if bad args then 1 else 0))"

definition disk_of :: "string list \<Rightarrow> string list \<Rightarrow> filesystem" where
  "disk_of files dirs =
     \<lparr>isfile = (\<lambda>p. p \<in> set files), path_exists = (\<lambda>p. p \<in> set files \<or> p \<in> set dirs)\<rparr>"

definition world_of :: "string list \<Rightarrow> string list \<Rightarrow> world" where
  "world_of files dirs = \<lparr>disk = disk_of files dirs, events = []\<rparr>"

text \<open>The two loggers of a tool, as \<^verbatim>\<open>store_logs\<close> sets them up for the directory
  \<^verbatim>\<open>/log\<close>.\<close>

definition process_log :: logger where
  "process_log = setup_logger ''GATK Running Messages'' ''/log/gatk_process.log''"

definition error_log :: logger where
  "error_log = setup_logger ''Errors & Warnings of GATK'' ''/log/gatk_errors.log''"

definition lib0 :: library where
  "lib0 = \<lparr>sample_name = ''S1'', library_id = ''L1'', location = ''raw/'', read1 = ''_R1.fq'',
            read2 = ''_R2.fq''\<rparr>"

definition cfg0 :: config where
  "cfg0 = \<lparr>alignment_software = ''bwa'', alignment_ref_index = ''/ref/hg'',
            alignment_output_dir = ''aln/'', alignment_num_threads = ''4'',
            reference_fa_file = ''/ref/hg.fa'', input_dir = ''/d/'',
            libraries = [(''lib1'', lib0)], logging = ''/log'',
            sorting_software = ''picard.jar'', snv_calling_software = ''gatk.jar'',
            snv_calling_threshold = ''10.0'', snv_calling_output_dir = ''var/'',
            snv_calling_knownsites = [(''dbsnp'', ''/ref/dbsnp.vcf'')],
            genotype_joining_output_name = ''joint''\<rparr>"

text \<open>A disk on which every path is a file and a directory.\<close>

definition world_full :: world where
  "world_full = \<lparr>disk = \<lparr>isfile = (\<lambda>p. True), path_exists = (\<lambda>p. True)\<rparr>, events = []\<rparr>"

text \<open>A string without a brace: \<^verbatim>\<open>str.format\<close> leaves it as it is.\<close>

definition brace_free :: "string \<Rightarrow> bool" where
  "brace_free s = list_all (\<lambda>c. c \<noteq> CHR ''{'' \<and> c \<noteq> CHR ''}'') s"

text \<open>A row of an alignment file: fields separated by tabs, ended by a line feed.\<close>

definition sam_row :: "string list \<Rightarrow> string" where
  "sam_row columns = str_join [CHR 0x09] columns @ [CHR 0x0A]"

section \<open>The stage calls of the orchestrator\<close>

text \<open>The three calls \<^verbatim>\<open>main\<close> of the variant-calling script makes for a library, with the
  arguments it gives them, each on the world the stage before it left.\<close>

definition sorting_of :: "env \<Rightarrow> config \<Rightarrow> library \<Rightarrow> world \<Rightarrow> int \<times> world" where
  "sorting_of e config lib w =
     sort_sam_picard e (sorting_software config)
       ((input_dir config @ alignment_output_dir config) @ sample_name lib @ ''_aligned.sam'')
       ((input_dir config @ alignment_output_dir config) @ sample_name lib @ ''_aligned_sorted.bam'')
       (fst (store_logs (logging config))) (fst (snd (store_logs (logging config)))) w"

definition recalibration_of :: "env \<Rightarrow> config \<Rightarrow> library \<Rightarrow> world \<Rightarrow> int \<times> world" where
  "recalibration_of e config lib w =
     recalibrate_base_quality_scores e (snv_calling_software config) (reference_fa_file config)
       (sample_name lib @ ''_aligned_sorted.bam'') (map snd (snv_calling_knownsites config))
       (input_dir config @ alignment_output_dir config)
       (fst (snd (snd (store_logs (logging config)))))
       (snd (snd (snd (store_logs (logging config)))))
       (snd (sorting_of e config lib w))"

definition calling_of :: "env \<Rightarrow> config \<Rightarrow> library \<Rightarrow> world \<Rightarrow> int \<times> world" where
  "calling_of e config lib w =
     call_variants e (snv_calling_software config) (reference_fa_file config)
       ((input_dir config @ alignment_output_dir config) @ sample_name lib @ ''_recal.bam'')
       (snv_calling_threshold config) (snv_calling_output_dir config)
       (fst (snd (snd (store_logs (logging config)))))
       (snd (snd (snd (store_logs (logging config)))))
       (snd (recalibration_of e config lib w))"

section \<open>Facts about the effects\<close>

lemma events_logger_info: "events (logger_info lg m a w) = events w @ [Log lg INFO m a]"
  by (simp add: logger_info_def)

lemma events_logger_error: "events (logger_error lg m a w) = events w @ [Log lg ERROR m a]"
  by (simp add: logger_error_def)

lemma events_py_print: "events (py_print a w) = events w @ [Print a]"
  by (simp add: py_print_def)

lemma disk_logger_info: "disk (logger_info lg m a w) = disk w"
  by (simp add: logger_info_def)

lemma disk_logger_error: "disk (logger_error lg m a w) = disk w"
  by (simp add: logger_error_def)

lemma disk_py_print: "disk (py_print a w) = disk w"
  by (simp add: py_print_def)

lemma events_ensure_dir: "events (ensure_dir d w) = events w"
  by (simp add: ensure_dir_def makedirs_def)

lemma isfile_ensure_dir: "isfile (disk (ensure_dir d w)) = isfile (disk w)"
  by (simp add: ensure_dir_def makedirs_def)

lemma path_exists_ensure_dir: "path_exists (disk (ensure_dir d w)) d"
  by (simp add: ensure_dir_def makedirs_def)

lemmas effect_simps =
  events_logger_info events_logger_error events_py_print disk_logger_info disk_logger_error
  disk_py_print events_ensure_dir isfile_ensure_dir

lemma launched_simps:
  "launched [] = []"
  "launched (Log lg lv m a # es) = launched es"
  "launched (Print a # es) = launched es"
  "launched (Run args # es) = Run args # launched es"
  "launched (Call args # es) = Call args # launched es"
  "launched (System c # es) = System c # launched es"
  by (simp_all add: launched_def)

lemma launched_append: "launched (xs @ ys) = launched xs @ launched ys"
  by (simp add: launched_def)

lemma launched_log_map: "launched (map (\<lambda>l. Log lg lv (f l) []) ls) = []"
  by (induction ls) (simp_all add: launched_simps)

lemma error_records_log_map:
  "filter is_error_record (map (\<lambda>l. Log lg INFO (f l) []) ls) = []"
  by (induction ls) simp_all

section \<open>Facts about the process runner\<close>

lemma events_log_lines:
  "events (log_lines lg lv ls w) = events w @ map (\<lambda>l. Log lg lv (PyBytes l) []) ls"
  by (induction ls arbitrary: w) (auto simp: logger_info_def logger_error_def split: level.splits)

lemma disk_log_lines: "disk (log_lines lg lv ls w) = disk w"
  by (induction ls arbitrary: w) (auto simp: logger_info_def logger_error_def split: level.splits)

text \<open>With standard error sent into standard output, everything the child wrote is
  captured as standard output, in the order written, and the \<^verbatim>\<open>stderr\<close> attribute is
  \<^verbatim>\<open>None\<close>.\<close>

lemma captured_PIPE_STDOUT: "captured PIPE STDOUT ws = (Some (map snd ws), None)"
proof -
  have "filter (\<lambda>sl. fst sl = Stdout \<or> fst sl = Stderr) ws = ws"
    by (rule filter_True) (metis stream.exhaust)
  then show ?thesis by (simp add: captured_def)
qed

text \<open>With a pipe of its own for each stream, the lines of each are kept apart.\<close>

lemma captured_PIPE_PIPE:
  "captured PIPE PIPE ws =
     (Some (map snd (filter (\<lambda>sl. fst sl = Stdout) ws)),
      Some (map snd (filter (\<lambda>sl. fst sl = Stderr) ws)))"
  by (simp add: captured_def)

lemma run_shell_command_returncode:
  "fst (run_shell_command e c lp le w) = returncode (fst (spawn e (shlex_split e c) (disk w)))"
  by (simp add: run_shell_command_def subprocess_run_def captured_PIPE_STDOUT logger_info_def
      Let_def split_def)

lemma run_shell_command_disk:
  "disk (snd (run_shell_command e c lp le w)) = snd (spawn e (shlex_split e c) (disk w))"
  by (simp add: run_shell_command_def subprocess_run_def captured_PIPE_STDOUT logger_info_def
      Let_def split_def disk_log_lines)

text \<open>What one call of \<^verbatim>\<open>run_shell_command\<close> adds to the events: the command line and
  every line the child wrote, on either stream, as records of the process logger, and
  the launch. Nothing reaches the error logger.\<close>

lemma run_shell_command_events:
  "events (snd (run_shell_command e c lp le w)) =
     events w @ [Log lp INFO (PyStr c) [], Run (shlex_split e c)]
       @ map (\<lambda>sl. Log lp INFO (PyBytes (snd sl)) [])
           (writes (fst (spawn e (shlex_split e c) (disk w))))"
  by (simp add: run_shell_command_def subprocess_run_def captured_PIPE_STDOUT logger_info_def
      Let_def split_def events_log_lines comp_def)

lemma run_shell_command_launched:
  "launched (events (snd (run_shell_command e c lp le w))) =
     launched (events w) @ [Run (shlex_split e c)]"
  by (simp add: run_shell_command_events launched_append launched_log_map launched_simps)

lemma run_shell_command_error_records:
  "filter is_error_record (events (snd (run_shell_command e c lp le w))) =
     filter is_error_record (events w)"
  by (simp add: run_shell_command_events error_records_log_map)

section \<open>The stages in the sample environments\<close>

lemma tools_simps:
  "shlex_split (tools b) = str_split_ws"
  "spawn (tools b) args d = (b args, d)"
  "shell (tools b) c d = (0, d)"
  by (simp_all add: tools_def)

lemma run_shell_command_tools:
  "fst (run_shell_command (tools b) c lp le w) = returncode (b (str_split_ws c))"
  "disk (snd (run_shell_command (tools b) c lp le w)) = disk w"
  by (simp_all add: run_shell_command_returncode run_shell_command_disk tools_simps)

lemma sort_sam_picard_tools:
  assumes "isfile (disk w) i"
  shows "fst (sort_sam_picard (tools b) p i out lp le w) =
           (if returncode (b (str_split_ws (command_sort p i out))) = 0 \<and>
               returncode (b (str_split_ws (command_index p out))) = 0 then 0 else 1)"
    and "isfile (disk (snd (sort_sam_picard (tools b) p i out lp le w))) = isfile (disk w)"
    and "launched (events (snd (sort_sam_picard (tools b) p i out lp le w))) =
           launched (events w) @ Run (str_split_ws (command_sort p i out)) #
             (if returncode (b (str_split_ws (command_sort p i out))) = 0
              then [Run (str_split_ws (command_index p out))] else [])"
  using assms
  by (simp_all add: sort_sam_picard_def Let_def split_def effect_simps run_shell_command_tools
      run_shell_command_launched launched_append launched_simps tools_simps)

lemma recalibrate_tools:
  assumes "isfile (disk w) (ad @ sb)"
  shows "fst (recalibrate_base_quality_scores (tools b) g fa sb ks ad lp le w) =
           (if returncode (b (str_split_ws (command_covariation_analysis g fa ad sb ks))) = 0 \<and>
               returncode (b (str_split_ws (command_covariation_analysis2 g fa ad sb ks))) = 0 \<and>
               returncode (b (str_split_ws (command_plot g fa ad sb))) = 0 \<and>
               returncode (b (str_split_ws (command_recalibrate g fa ad sb))) = 0 then 0 else 1)"
    and "isfile (disk (snd (recalibrate_base_quality_scores (tools b) g fa sb ks ad lp le w))) =
           isfile (disk w)"
    and "launched (events (snd (recalibrate_base_quality_scores (tools b) g fa sb ks ad lp le w))) =
           launched (events w) @ Run (str_split_ws (command_covariation_analysis g fa ad sb ks)) #
             (if returncode (b (str_split_ws (command_covariation_analysis g fa ad sb ks))) \<noteq> 0 then []
              else Run (str_split_ws (command_covariation_analysis2 g fa ad sb ks)) #
                (if returncode (b (str_split_ws (command_covariation_analysis2 g fa ad sb ks))) \<noteq> 0
                 then []
                 else Run (str_split_ws (command_plot g fa ad sb)) #
                   (if returncode (b (str_split_ws (command_plot g fa ad sb))) \<noteq> 0 then []
                    else [Run (str_split_ws (command_recalibrate g fa ad sb))])))"
  using assms
  by (simp_all add: recalibrate_base_quality_scores_def bqsr_failed_def Let_def split_def
      effect_simps run_shell_command_tools run_shell_command_launched launched_append
      launched_simps tools_simps)

lemma call_variants_tools:
  assumes "isfile (disk w) rb"
  shows "fst (call_variants (tools b) g fa rb th od lp le w) =
           (if returncode (b (str_split_ws (command_call_var g fa rb th od))) = 0 then 0 else 1)"
    and "launched (events (snd (call_variants (tools b) g fa rb th od lp le w))) =
           launched (events w) @ [Run (str_split_ws (command_call_var g fa rb th od))]"
  using assms
  by (simp_all add: call_variants_def Let_def split_def effect_simps run_shell_command_tools
      run_shell_command_launched launched_append launched_simps tools_simps)

text \<open>The argument lists of the seven commands for the sample configuration.\<close>

lemma args_sort0:
  "str_split_ws (command_sort ''picard.jar'' ''/d/aln/S1_aligned.sam'' ''/d/aln/S1_aligned_sorted.bam'') =
     [''java'', ''-jar'', ''picard.jar'', ''SortSam'', ''INPUT=/d/aln/S1_aligned.sam'',
      ''OUTPUT=/d/aln/S1_aligned_sorted.bam'', ''SORT_ORDER=coordinate'']"
  by code_simp

lemma args_index0:
  "str_split_ws (command_index ''picard.jar'' ''/d/aln/S1_aligned_sorted.bam'') =
     [''java'', ''-jar'', ''picard.jar'', ''BuildBamIndex'', ''INPUT=/d/aln/S1_aligned_sorted.bam'']"
  by code_simp

lemma args_covariation0:
  "str_split_ws (command_covariation_analysis ''gatk.jar'' ''/ref/hg.fa'' ''/d/aln/''
       ''S1_aligned_sorted.bam'' [''/ref/dbsnp.vcf'']) =
     [''java'', ''-jar'', ''gatk.jar'', ''-T'', ''BaseRecalibrator'', ''-R'', ''/ref/hg.fa'', ''-I'',
      ''/d/aln/S1_aligned_sorted.bam'', ''-knownSites'', ''/ref/dbsnp.vcf'', ''-o'',
      ''/d/aln/S1_recal.table'']"
  by code_simp

lemma args_covariation2_0:
  "str_split_ws (command_covariation_analysis2 ''gatk.jar'' ''/ref/hg.fa'' ''/d/aln/''
       ''S1_aligned_sorted.bam'' [''/ref/dbsnp.vcf'']) =
     [''java'', ''-jar'', ''gatk.jar'', ''-T'', ''BaseRecalibrator'', ''-R'', ''/ref/hg.fa'', ''-I'',
      ''/d/aln/S1_aligned_sorted.bam'', ''-knownSites'', ''/ref/dbsnp.vcf'', ''-BQSR'',
      ''/d/aln/S1_recal.table'', ''-o'', ''/d/aln/S1_recal_post.table'']"
  by code_simp

lemma args_plot0:
  "str_split_ws (command_plot ''gatk.jar'' ''/ref/hg.fa'' ''/d/aln/'' ''S1_aligned_sorted.bam'') =
     [''java'', ''-jar'', ''gatk.jar'', ''-T'', ''AnalyzeCovariates'', ''-R'', ''/ref/hg.fa'',
      ''-before'', ''/d/aln/S1_recal.table'', ''-after'', ''/d/aln/S1_recal_post.table'', ''-plots'',
      ''/d/aln/S1_recal_plots.pdf'']"
  by code_simp

lemma args_recalibrate0:
  "str_split_ws (command_recalibrate ''gatk.jar'' ''/ref/hg.fa'' ''/d/aln/'' ''S1_aligned_sorted.bam'') =
     [''java'', ''-jar'', ''gatk.jar'', ''-T'', ''PrintReads'', ''-R'', ''/ref/hg.fa'', ''-I'',
      ''/d/aln/S1_aligned_sorted.bam'', ''-BQSR'', ''/d/aln/S1_recal.table'', ''-o'',
      ''/d/aln/S1_recal.bam'']"
  by code_simp

lemma args_call0:
  "str_split_ws (command_call_var ''gatk.jar'' ''/ref/hg.fa'' ''/d/aln/S1_recal.bam'' ''10.0'' ''var/'') =
     [''java'', ''-jar'', ''gatk.jar'', ''-T'', ''HaplotypeCaller'', ''-R'', ''/ref/hg.fa'', ''-I'',
      ''/d/aln/S1_recal.bam'', ''--genotyping_mode'', ''DISCOVERY'', ''-stand_call_conf'', ''10.0'',
      ''--emitRefConfidence'', ''GVCF'', ''-o'', ''var/S1_raw_variants.g.vcf'']"
  by code_simp

lemmas args0 =
  args_sort0 args_index0 args_covariation0 args_covariation2_0 args_plot0 args_recalibrate0
  args_call0

text \<open>The three stage calls of the orchestrator for the sample library, in an
  environment whose tools fail as \<open>bad\<close> says, on the disk that has every file.\<close>

lemma sorting_of_sample:
  "fst (sorting_of (env_failing_at bad) cfg0 lib0 world_full) =
     (if bad [''java'', ''-jar'', ''picard.jar'', ''SortSam'', ''INPUT=/d/aln/S1_aligned.sam'',
              ''OUTPUT=/d/aln/S1_aligned_sorted.bam'', ''SORT_ORDER=coordinate''] \<or>
         bad [''java'', ''-jar'', ''picard.jar'', ''BuildBamIndex'',
              ''INPUT=/d/aln/S1_aligned_sorted.bam''] then 1 else 0)"
  "isfile (disk (snd (sorting_of (env_failing_at bad) cfg0 lib0 world_full))) = (\<lambda>p. True)"
  "launched (events (snd (sorting_of (env_failing_at bad) cfg0 lib0 world_full))) =
     Run [''java'', ''-jar'', ''picard.jar'', ''SortSam'', ''INPUT=/d/aln/S1_aligned.sam'',
          ''OUTPUT=/d/aln/S1_aligned_sorted.bam'', ''SORT_ORDER=coordinate''] #
     (if bad [''java'', ''-jar'', ''picard.jar'', ''SortSam'', ''INPUT=/d/aln/S1_aligned.sam'',
              ''OUTPUT=/d/aln/S1_aligned_sorted.bam'', ''SORT_ORDER=coordinate''] then []
      else [Run [''java'', ''-jar'', ''picard.jar'', ''BuildBamIndex'',
                 ''INPUT=/d/aln/S1_aligned_sorted.bam'']])"
  by (simp_all add: sorting_of_def env_failing_at_def sort_sam_picard_tools cfg0_def lib0_def
      world_full_def silent_def args0 launched_simps)

lemma recalibration_of_sample:
  "fst (recalibration_of (env_failing_at bad) cfg0 lib0 world_full) =
     (if bad [''java'', ''-jar'', ''gatk.jar'', ''-T'', ''BaseRecalibrator'', ''-R'', ''/ref/hg.fa'',
              ''-I'', ''/d/aln/S1_aligned_sorted.bam'', ''-knownSites'', ''/ref/dbsnp.vcf'', ''-o'',
              ''/d/aln/S1_recal.table''] \<or>
         bad [''java'', ''-jar'', ''gatk.jar'', ''-T'', ''BaseRecalibrator'', ''-R'', ''/ref/hg.fa'',
              ''-I'', ''/d/aln/S1_aligned_sorted.bam'', ''-knownSites'', ''/ref/dbsnp.vcf'', ''-BQSR'',
              ''/d/aln/S1_recal.table'', ''-o'', ''/d/aln/S1_recal_post.table''] \<or>
         bad [''java'', ''-jar'', ''gatk.jar'', ''-T'', ''AnalyzeCovariates'', ''-R'', ''/ref/hg.fa'',
              ''-before'', ''/d/aln/S1_recal.table'', ''-after'', ''/d/aln/S1_recal_post.table'',
              ''-plots'', ''/d/aln/S1_recal_plots.pdf''] \<or>
         bad [''java'', ''-jar'', ''gatk.jar'', ''-T'', ''PrintReads'', ''-R'', ''/ref/hg.fa'', ''-I'',
              ''/d/aln/S1_aligned_sorted.bam'', ''-BQSR'', ''/d/aln/S1_recal.table'', ''-o'',
              ''/d/aln/S1_recal.bam''] then 1 else 0)"
  "isfile (disk (snd (recalibration_of (env_failing_at bad) cfg0 lib0 world_full))) = (\<lambda>p. True)"
proof -
  have files: "isfile (disk (snd (sorting_of (env_failing_at bad) cfg0 lib0 world_full))) p" for p
    by (simp add: sorting_of_sample)
  show "fst (recalibration_of (env_failing_at bad) cfg0 lib0 world_full) =
     (if bad [''java'', ''-jar'', ''gatk.jar'', ''-T'', ''BaseRecalibrator'', ''-R'', ''/ref/hg.fa'',
              ''-I'', ''/d/aln/S1_aligned_sorted.bam'', ''-knownSites'', ''/ref/dbsnp.vcf'', ''-o'',
              ''/d/aln/S1_recal.table''] \<or>
         bad [''java'', ''-jar'', ''gatk.jar'', ''-T'', ''BaseRecalibrator'', ''-R'', ''/ref/hg.fa'',
              ''-I'', ''/d/aln/S1_aligned_sorted.bam'', ''-knownSites'', ''/ref/dbsnp.vcf'', ''-BQSR'',
              ''/d/aln/S1_recal.table'', ''-o'', ''/d/aln/S1_recal_post.table''] \<or>
         bad [''java'', ''-jar'', ''gatk.jar'', ''-T'', ''AnalyzeCovariates'', ''-R'', ''/ref/hg.fa'',
              ''-before'', ''/d/aln/S1_recal.table'', ''-after'', ''/d/aln/S1_recal_post.table'',
              ''-plots'', ''/d/aln/S1_recal_plots.pdf''] \<or>
         bad [''java'', ''-jar'', ''gatk.jar'', ''-T'', ''PrintReads'', ''-R'', ''/ref/hg.fa'', ''-I'',
              ''/d/aln/S1_aligned_sorted.bam'', ''-BQSR'', ''/d/aln/S1_recal.table'', ''-o'',
              ''/d/aln/S1_recal.bam''] then 1 else 0)"
    unfolding recalibration_of_def env_failing_at_def
    by (subst recalibrate_tools(1))
      (use files in \<open>simp_all add: env_failing_at_def cfg0_def lib0_def silent_def args0\<close>)
  show "isfile (disk (snd (recalibration_of (env_failing_at bad) cfg0 lib0 world_full))) = (\<lambda>p. True)"
    unfolding recalibration_of_def env_failing_at_def
    by (subst recalibrate_tools(2))
      (use files sorting_of_sample(2) [of bad] in \<open>simp_all add: env_failing_at_def\<close>)
qed

lemma calling_of_sample:
  "fst (calling_of (env_failing_at bad) cfg0 lib0 world_full) =
     (if bad [''java'', ''-jar'', ''gatk.jar'', ''-T'', ''HaplotypeCaller'', ''-R'', ''/ref/hg.fa'',
              ''-I'', ''/d/aln/S1_recal.bam'', ''--genotyping_mode'', ''DISCOVERY'',
              ''-stand_call_conf'', ''10.0'', ''--emitRefConfidence'', ''GVCF'', ''-o'',
              ''var/S1_raw_variants.g.vcf''] then 1 else 0)"
proof -
  have files: "isfile (disk (snd (recalibration_of (env_failing_at bad) cfg0 lib0 world_full))) p"
    for p
    by (simp add: recalibration_of_sample)
  show ?thesis
    unfolding calling_of_def env_failing_at_def
    by (subst call_variants_tools(1))
      (use files in \<open>simp_all add: env_failing_at_def cfg0_def lib0_def silent_def args0\<close>)
qed

section \<open>The orchestrator stops at the first failing stage\<close>

text \<open>
  Claim C1. \<^verbatim>\<open>main\<close> of the variant-calling script runs sorting, recalibration and variant
  calling in this order. It goes on to the next stage only when the stage before returned
  0. When a stage returns something else, \<^verbatim>\<open>main\<close> returns 1 for sorting, 2 for
  recalibration, 3 for variant calling, and the world it leaves is the world that stage
  left: no later stage has logged, printed or launched anything.
\<close>

theorem main_germline_fail_fast:
  assumes "map_of (libraries config) lib_key = Some lib"
  shows
    "(fst (sorting_of e config lib w) \<noteq> 0 \<longrightarrow>
        main_germline e config (prog # lib_key # rest) w =
          (Inr (Some 1), snd (sorting_of e config lib w))) \<and>
     (fst (sorting_of e config lib w) = 0 \<and> fst (recalibration_of e config lib w) \<noteq> 0 \<longrightarrow>
        main_germline e config (prog # lib_key # rest) w =
          (Inr (Some 2), snd (recalibration_of e config lib w))) \<and>
     (fst (sorting_of e config lib w) = 0 \<and> fst (recalibration_of e config lib w) = 0 \<and>
      fst (calling_of e config lib w) \<noteq> 0 \<longrightarrow>
        main_germline e config (prog # lib_key # rest) w =
          (Inr (Some 3), snd (calling_of e config lib w)))"
  using assms
  by (simp add: main_germline_def sorting_of_def recalibration_of_def calling_of_def Let_def
      split_def)

theorem main_germline_fail_fast_witness:
  "map_of (libraries cfg0) ''lib1'' = Some lib0 \<and>
   fst (main_germline (env_failing_at (\<lambda>args. ''SortSam'' \<in> set args)) cfg0
          [''variant_calling.py'', ''lib1''] world_full) = Inr (Some 1) \<and>
   launched (events (snd (main_germline (env_failing_at (\<lambda>args. ''SortSam'' \<in> set args)) cfg0
          [''variant_calling.py'', ''lib1''] world_full))) =
     [Run [''java'', ''-jar'', ''picard.jar'', ''SortSam'', ''INPUT=/d/aln/S1_aligned.sam'',
           ''OUTPUT=/d/aln/S1_aligned_sorted.bam'', ''SORT_ORDER=coordinate'']] \<and>
   fst (main_germline (env_failing_at (\<lambda>args. ''PrintReads'' \<in> set args)) cfg0
          [''variant_calling.py'', ''lib1''] world_full) = Inr (Some 2) \<and>
   fst (main_germline (env_failing_at (\<lambda>args. ''HaplotypeCaller'' \<in> set args)) cfg0
          [''variant_calling.py'', ''lib1''] world_full) = Inr (Some 3)"
proof -
  have lib: "map_of (libraries cfg0) ''lib1'' = Some lib0"
    by (simp add: cfg0_def)
  show ?thesis
    using lib
      main_germline_fail_fast [OF lib, where e = "env_failing_at (\<lambda>args. ''SortSam'' \<in> set args)"
        and w = world_full and prog = "''variant_calling.py''" and rest = "[]"]
      main_germline_fail_fast [OF lib, where e = "env_failing_at (\<lambda>args. ''PrintReads'' \<in> set args)"
        and w = world_full and prog = "''variant_calling.py''" and rest = "[]"]
      main_germline_fail_fast [OF lib,
        where e = "env_failing_at (\<lambda>args. ''HaplotypeCaller'' \<in> set args)"
        and w = world_full and prog = "''variant_calling.py''" and rest = "[]"]
    by (simp add: sorting_of_sample recalibration_of_sample calling_of_sample)
qed

text \<open>When every stage returns 0, \<^verbatim>\<open>main\<close> falls off its end: its value is \<^verbatim>\<open>None\<close>.\<close>

lemma main_germline_all_stages_pass:
  assumes "map_of (libraries config) lib_key = Some lib"
    and "fst (sorting_of e config lib w) = 0"
    and "fst (recalibration_of e config lib w) = 0"
    and "fst (calling_of e config lib w) = 0"
  shows "main_germline e config (prog # lib_key # rest) w =
           (Inr None, snd (calling_of e config lib w))"
  using assms
  by (simp add: main_germline_def sorting_of_def recalibration_of_def calling_of_def Let_def
      split_def)

section \<open>The sorting stage stops when sorting fails\<close>

text \<open>
  Claim C7. In \<^verbatim>\<open>sort_sam_picard\<close>, with the input file present: when the \<^verbatim>\<open>SortSam\<close>
  process exits with a code other than 0, the stage returns 1 and \<^verbatim>\<open>SortSam\<close> is the only
  process it has launched, so \<^verbatim>\<open>BuildBamIndex\<close> was not attempted; when \<^verbatim>\<open>SortSam\<close> exits
  with 0, \<^verbatim>\<open>BuildBamIndex\<close> is launched next, after it.
\<close>

theorem sort_sam_picard_fail_fast:
  assumes "isfile (disk w) input_sam"
  shows
    "(fst (run_shell_command e (command_sort picard_dir input_sam output_bam) lp le
             (ensure_dir (dirname output_bam) w)) \<noteq> 0 \<longrightarrow>
        fst (sort_sam_picard e picard_dir input_sam output_bam lp le w) = 1 \<and>
        launched (events (snd (sort_sam_picard e picard_dir input_sam output_bam lp le w))) =
          launched (events w) @
            [Run (shlex_split e (command_sort picard_dir input_sam output_bam))]) \<and>
     (fst (run_shell_command e (command_sort picard_dir input_sam output_bam) lp le
             (ensure_dir (dirname output_bam) w)) = 0 \<longrightarrow>
        launched (events (snd (sort_sam_picard e picard_dir input_sam output_bam lp le w))) =
          launched (events w) @
            [Run (shlex_split e (command_sort picard_dir input_sam output_bam)),
             Run (shlex_split e (command_index picard_dir output_bam))])"
  using assms
  by (simp add: sort_sam_picard_def Let_def split_def effect_simps launched_append
      launched_simps run_shell_command_launched)

theorem sort_sam_picard_fail_fast_witness:
  "isfile (disk world_full) ''/d/aln/S1_aligned.sam'' \<and>
   fst (sort_sam_picard env_failing ''picard.jar'' ''/d/aln/S1_aligned.sam''
          ''/d/aln/S1_aligned_sorted.bam'' process_log error_log world_full) = 1 \<and>
   launched (events (snd (sort_sam_picard env_failing ''picard.jar'' ''/d/aln/S1_aligned.sam''
          ''/d/aln/S1_aligned_sorted.bam'' process_log error_log world_full))) =
     [Run [''java'', ''-jar'', ''picard.jar'', ''SortSam'', ''INPUT=/d/aln/S1_aligned.sam'',
           ''OUTPUT=/d/aln/S1_aligned_sorted.bam'', ''SORT_ORDER=coordinate'']] \<and>
   launched (events (snd (sort_sam_picard env_ok ''picard.jar'' ''/d/aln/S1_aligned.sam''
          ''/d/aln/S1_aligned_sorted.bam'' process_log error_log world_full))) =
     [Run [''java'', ''-jar'', ''picard.jar'', ''SortSam'', ''INPUT=/d/aln/S1_aligned.sam'',
           ''OUTPUT=/d/aln/S1_aligned_sorted.bam'', ''SORT_ORDER=coordinate''],
      Run [''java'', ''-jar'', ''picard.jar'', ''BuildBamIndex'',
           ''INPUT=/d/aln/S1_aligned_sorted.bam'']]"
proof -
  have present: "isfile (disk world_full) ''/d/aln/S1_aligned.sam''"
    by (simp add: world_full_def)
  have fails: "fst (run_shell_command env_failing
                 (command_sort ''picard.jar'' ''/d/aln/S1_aligned.sam'' ''/d/aln/S1_aligned_sorted.bam'')
                 process_log error_log
                 (ensure_dir (dirname ''/d/aln/S1_aligned_sorted.bam'') world_full)) \<noteq> 0"
    by (simp add: env_failing_def run_shell_command_tools silent_def)
  have passes: "fst (run_shell_command env_ok
                  (command_sort ''picard.jar'' ''/d/aln/S1_aligned.sam'' ''/d/aln/S1_aligned_sorted.bam'')
                  process_log error_log
                  (ensure_dir (dirname ''/d/aln/S1_aligned_sorted.bam'') world_full)) = 0"
    by (simp add: env_ok_def run_shell_command_tools silent_def)
  have fresh: "launched (events world_full) = []"
    by (simp add: world_full_def launched_simps)
  have split_ok: "shlex_split env_ok = str_split_ws" "shlex_split env_failing = str_split_ws"
    by (simp_all add: env_ok_def env_failing_def tools_simps)
  show ?thesis
    using present fails passes
      sort_sam_picard_fail_fast [OF present, where e = env_failing and picard_dir = "''picard.jar''"
        and output_bam = "''/d/aln/S1_aligned_sorted.bam''" and lp = process_log
        and le = error_log]
      sort_sam_picard_fail_fast [OF present, where e = env_ok and picard_dir = "''picard.jar''"
        and output_bam = "''/d/aln/S1_aligned_sorted.bam''" and lp = process_log
        and le = error_log]
    by (simp add: fresh split_ok args0)
qed

section \<open>Where the lines of a child process go\<close>

text \<open>
  For every environment and every command, \<^verbatim>\<open>run_shell_command\<close> returns the exit code
  of the process as it is (\<open>run_shell_command_returncode\<close>), writes every line of either
  stream to the process logger in the order written (\<open>run_shell_command_events\<close>) and
  adds no record to the error logger (\<open>run_shell_command_error_records\<close>): the loop
  over \<^verbatim>\<open>command_line_process.stderr\<close> never runs, because \<^verbatim>\<open>stderr=subprocess.STDOUT\<close>
  leaves that attribute \<^verbatim>\<open>None\<close>. With \<^verbatim>\<open>stderr=subprocess.PIPE\<close> the same two loops
  would keep the streams apart:
\<close>

lemma log_lines_of_two_pipes:
  "events (log_lines le ERROR (the (snd (captured PIPE PIPE ws)))
             (log_lines lp INFO (the (fst (captured PIPE PIPE ws))) w)) =
     events w
       @ map (\<lambda>l. Log lp INFO (PyBytes l) []) (map snd (filter (\<lambda>sl. fst sl = Stdout) ws))
       @ map (\<lambda>l. Log le ERROR (PyBytes l) []) (map snd (filter (\<lambda>sl. fst sl = Stderr) ws))"
  by (simp add: captured_PIPE_PIPE events_log_lines)

text \<open>
  Claim C2, at a process that writes \<^verbatim>\<open>reading\<close> to standard output, then \<^verbatim>\<open>bad record\<close>
  to standard error, then \<^verbatim>\<open>done\<close> to standard output, and exits with 3. The exit code
  comes back as it is and the lines of standard output are in the process log in order;
  the line of standard error is in the process log too, between them, and the error log
  has received nothing.
\<close>

theorem run_shell_command_stderr_in_process_log:
  "fst (run_shell_command
          (tools (\<lambda>args. \<lparr>returncode = 3,
                          writes = [(Stdout, ''reading''), (Stderr, ''bad record''), (Stdout, ''done'')]\<rparr>))
          ''tool in.bam'' process_log error_log (world_of [] [])) = 3 \<and>
   events (snd (run_shell_command
          (tools (\<lambda>args. \<lparr>returncode = 3,
                          writes = [(Stdout, ''reading''), (Stderr, ''bad record''), (Stdout, ''done'')]\<rparr>))
          ''tool in.bam'' process_log error_log (world_of [] []))) =
     [Log process_log INFO (PyStr ''tool in.bam'') [],
      Run [''tool'', ''in.bam''],
      Log process_log INFO (PyBytes ''reading'') [],
      Log process_log INFO (PyBytes ''bad record'') [],
      Log process_log INFO (PyBytes ''done'') []]"
proof -
  have args: "str_split_ws ''tool in.bam'' = [''tool'', ''in.bam'']"
    by code_simp
  show ?thesis
    by (simp add: run_shell_command_returncode run_shell_command_events tools_simps world_of_def
        args)
qed

section \<open>The coordinate remap\<close>

text \<open>Whatever the input, \<^verbatim>\<open>modify_sam_location\<close> writes rows of the input only, unchanged
  and in order: the first rows up to some point. It comes to its end without an
  exception only when it has copied every row.\<close>

lemma modify_sam_location_copies:
  "\<exists>k \<le> length rows. snd (modify_sam_location rows written) = written @ take k rows"
proof (induction rows arbitrary: written)
  case Nil
  then show ?case by simp
next
  case (Cons row rows)
  have stop: "\<exists>k \<le> length (row # rows). written = written @ take k (row # rows)"
    by (rule exI [of _ 0]) simp
  have go: "\<exists>k \<le> length (row # rows).
              snd (modify_sam_location rows (written @ [row])) = written @ take k (row # rows)"
  proof -
    from Cons.IH [of "written @ [row]"] obtain k where
      "k \<le> length rows" "snd (modify_sam_location rows (written @ [row])) = (written @ [row]) @ take k rows"
      by blast
    then show ?thesis
      by (intro exI [of _ "Suc k"]) simp
  qed
  show ?case
    using stop go
    by (auto simp: Let_def split: list.splits)
qed

lemma modify_sam_location_returns:
  "fst (modify_sam_location rows written) = Inr () \<Longrightarrow>
     snd (modify_sam_location rows written) = written @ rows"
  by (induction rows arbitrary: written) (auto simp: Let_def split: list.splits if_splits)

text \<open>
  Claim C3, at a file of three rows: a header line, an unmapped record, and a record
  aligned at position 50 of \<^verbatim>\<open>chr2_1000_2000\<close>. The first two are written as they are. At
  the third the function raises \<^verbatim>\<open>NameError\<close>: no record \<^verbatim>\<open>chr2\<close> at position 1049 is
  written.
\<close>

theorem modify_sam_location_name_error:
  "modify_sam_location
     [sam_row [''@HD'', ''VN:1.0'', ''SO:unsorted''],
      sam_row [''r0'', ''4'', ''*'', ''0'', ''0'', ''*'', ''*'', ''0'', ''0'', ''ACGT'', ''IIII''],
      sam_row [''r1'', ''0'', ''chr2_1000_2000'', ''50'', ''60'', ''4M'', ''*'', ''0'', ''0'', ''ACGT'',
               ''IIII'']] [] =
     (Inl NameError,
      [sam_row [''@HD'', ''VN:1.0'', ''SO:unsorted''],
       sam_row [''r0'', ''4'', ''*'', ''0'', ''0'', ''*'', ''*'', ''0'', ''0'', ''ACGT'', ''IIII'']])"
  by code_simp

section \<open>The alignment stage\<close>












section \<open>A missing input file\<close>




section \<open>The four steps of recalibration\<close>




section \<open>The command templates\<close>

text \<open>\<^verbatim>\<open>split\<close> never returns the empty list, so its last element exists.\<close>

lemma split_char_nonempty: "split_char d s \<noteq> []"
  by (induction s) (auto split: list.splits)

text \<open>The command lines written as concatenations in the stage definitions are what
  \<^verbatim>\<open>str.format\<close> makes of the templates in the source, whatever the arguments are.\<close>

lemmas format_simps = py_format_def is_digit_def field_index_def

lemma format_command_sort:
  "py_format ''java -jar {0} SortSam INPUT={1} OUTPUT={2} SORT_ORDER=coordinate''
     [picard_dir, input_sam, output_bam] = Inr (command_sort picard_dir input_sam output_bam)"
  by (simp add: format_simps command_sort_def)

lemma format_command_index:
  "py_format ''java -jar {0} BuildBamIndex INPUT={1}'' [picard_dir, output_bam] =
     Inr (command_index picard_dir output_bam)"
  by (simp add: format_simps command_index_def)

lemma format_command_covariation_analysis:
  "py_format ''java -jar {0} -T BaseRecalibrator     -R {1} -I {2}''
     [gatk_dir, ref_fa_file, align_dir @ sorted_bam] = Inr base \<Longrightarrow>
   command_covariation_analysis gatk_dir ref_fa_file align_dir sorted_bam knownsites =
     add_knownsites base knownsites @ '' -o '' @ output_recal_table align_dir sorted_bam"
  by (simp add: format_simps command_covariation_analysis_def)

lemma format_command_covariation_analysis2:
  "py_format ''java -jar {0} -T BaseRecalibrator -R {1}     -I {2}''
     [gatk_dir, ref_fa_file, align_dir @ sorted_bam] = Inr base \<Longrightarrow>
   py_format '' -BQSR {0} -o {1}''
     [output_recal_table align_dir sorted_bam, output_post_recal_table align_dir sorted_bam] =
     Inr tail \<Longrightarrow>
   command_covariation_analysis2 gatk_dir ref_fa_file align_dir sorted_bam knownsites =
     add_knownsites base knownsites @ tail"
  by (simp add: format_simps command_covariation_analysis2_def)

lemma format_command_plot:
  "py_format ''java -jar {0} -T AnalyzeCovariates -R {1} -before {2} -after {3}     -plots {4}''
     [gatk_dir, ref_fa_file, output_recal_table align_dir sorted_bam,
      output_post_recal_table align_dir sorted_bam,
      align_dir @ prefix_name sorted_bam @ ''_recal_plots.pdf''] =
     Inr (command_plot gatk_dir ref_fa_file align_dir sorted_bam)"
  by (simp add: format_simps command_plot_def)

lemma format_command_recalibrate:
  "py_format ''java -jar {0} -T PrintReads -R {1} -I {2} -BQSR {3} -o {4}''
     [gatk_dir, ref_fa_file, align_dir @ sorted_bam, output_recal_table align_dir sorted_bam,
      align_dir @ prefix_name sorted_bam @ ''_recal.bam''] =
     Inr (command_recalibrate gatk_dir ref_fa_file align_dir sorted_bam)"
  by (simp add: format_simps command_recalibrate_def output_recal_bam_def)

lemma format_command_call_var:
  "py_format (''java -jar {0} -T HaplotypeCaller -R {1} -I {2} --genotyping_mode DISCOVERY ''
              @ ''    -stand_call_conf {3} --emitRefConfidence GVCF -o {4}'')
     [gatk_dir, ref_fa_file, recal_bam, threshold_call,
      out_dir @ samp_name recal_bam @ ''_raw_variants.g.vcf''] =
     Inr (command_call_var gatk_dir ref_fa_file recal_bam threshold_call out_dir)"
  by (simp add: format_simps command_call_var_def raw_variants_file_def)

lemma format_bwa_index_command:
  "py_format ''{0} index -p {1} {2}'' [bwa_dir, ref_index_name, ref_fa_file] =
     Inr (bwa_index_command bwa_dir ref_index_name ref_fa_file)"
  by (simp add: format_simps bwa_index_command_def)

lemma format_bwa_align_command:
  "py_format ''{0} mem -t {1} -M -R {2} {3} {4} {5} > {6}''
     [bwa_dir, n_threads, read_group, ref_index_name, r1, r2, out_file] =
     Inr (bwa_align_command bwa_dir n_threads read_group ref_index_name r1 r2 out_file)"
  by (simp add: format_simps bwa_align_command_def)

section \<open>The genotype-joining stage\<close>

lemma gather_gvcfs_missing_directory:
  assumes "\<not> path_exists (disk w) variants_dir"
  shows "fst (gather_gvcfs e gatk_dir ref_seq gvcf_list variants_dir out_name thres_call lp le w) =
           Inr 1"
    and "events (snd (gather_gvcfs e gatk_dir ref_seq gvcf_list variants_dir out_name thres_call
                        lp le w)) =
           events w @
             [Log le ERROR (PyStr ''The directory %s does not exist!'') [PyStr variants_dir],
              Print [PyStr (''ERROR:: The directory %s does not exist! Please check the ''
                            @ ''correctness of input. Make sure the GVCF files are contained ''
                            @ ''in the directory.'')]]"
  using assms by (simp_all add: gather_gvcfs_def Let_def effect_simps)

text \<open>A stretch of the template without braces is copied.\<close>

lemma format_scan_plain:
  "brace_free s \<Longrightarrow>
     format_scan args Literal (s @ t) = map_sum id ((@) s) (format_scan args Literal t)"
proof (induction s)
  case Nil
  show ?case by (cases "format_scan args Literal t") simp_all
next
  case (Cons c s)
  then show ?case
    by (cases "format_scan args Literal t") (simp_all add: brace_free_def)
qed

lemma brace_free_append: "brace_free (s @ t) = (brace_free s \<and> brace_free t)"
  by (simp add: brace_free_def)

lemma brace_free_str_join:
  "brace_free sep \<Longrightarrow> list_all brace_free xs \<Longrightarrow> brace_free (str_join sep xs)"
  by (induction sep xs rule: str_join.induct) (simp_all add: brace_free_append, simp add: brace_free_def)

text \<open>With file names free of braces the joint command line is the one the template
  suggests, and every file of the list is in it.\<close>

lemma py_format_template_joint:
  assumes "list_all brace_free gvcf_list"
  shows "py_format (template_joint gvcf_list) [gatk_dir, ref_seq, thres_call, out] =
           Inr (''java -jar '' @ gatk_dir @ '' -T GenotypeGVCFs -R '' @ ref_seq
                @ '' -stand_call_conf '' @ thres_call @ '' --variant ''
                @ str_join '' --variant '' gvcf_list @ '' -o '' @ out)"
proof -
  have "brace_free (str_join '' --variant '' gvcf_list)"
    using assms by (intro brace_free_str_join) (simp_all add: brace_free_def)
  then show ?thesis
    by (simp add: format_simps template_joint_def format_scan_plain)
qed

lemma str_join_has:
  "p \<in> set xs \<Longrightarrow> \<exists>before after. str_join sep xs = before @ p @ after"
proof (induction sep xs rule: str_join.induct)
  case (1 sep)
  then show ?case by simp
next
  case (2 sep x)
  then have "str_join sep [x] = [] @ p @ []" by simp
  then show ?case by blast
next
  case (3 sep x y ys)
  show ?case
  proof (cases "p = x")
    case True
    then have "str_join sep (x # y # ys) = [] @ p @ (sep @ str_join sep (y # ys))" by simp
    then show ?thesis by blast
  next
    case False
    with 3 obtain b a where "str_join sep (y # ys) = b @ p @ a" by auto
    then have "str_join sep (x # y # ys) = (x @ sep @ b) @ p @ a" by simp
    then show ?thesis by blast
  qed
qed

lemma gather_gvcfs_plain_names:
  assumes "path_exists (disk w) variants_dir" and "list_all brace_free gvcf_list"
  shows "launched (events (snd (gather_gvcfs e gatk_dir ref_seq gvcf_list variants_dir out_name
                                  thres_call lp le w))) =
           launched (events w) @
             [Run (shlex_split e
                (''java -jar '' @ gatk_dir @ '' -T GenotypeGVCFs -R '' @ ref_seq
                 @ '' -stand_call_conf '' @ thres_call @ '' --variant ''
                 @ str_join '' --variant '' gvcf_list @ '' -o '' @ (variants_dir @ out_name @ ''.vcf'')))]"
  using assms(1)
  by (simp add: gather_gvcfs_def py_format_template_joint [OF assms(2)] Let_def split_def
      effect_simps run_shell_command_launched launched_append launched_simps)

text \<open>
  Claim C8, at a directory whose name has a brace pair in it: \<^verbatim>\<open>/d/run{1}/\<close>, which exists
  and holds the one per-sample file \<^verbatim>\<open>/d/run{1}/S1.g.vcf\<close>. The stage formats the template
  after it has put the file names into it, so \<^verbatim>\<open>{1}\<close> in the file name is replaced by the
  reference path, the second argument of \<^verbatim>\<open>format\<close>. The one command launched names
  \<^verbatim>\<open>/d/run/ref/hg.fa/S1.g.vcf\<close> and not the file of the list.
\<close>

theorem gather_gvcfs_formats_file_names:
  "path_exists (disk (world_of [] [''/d/run{1}/''])) ''/d/run{1}/'' \<and>
   fst (gather_gvcfs env_ok ''gatk.jar'' ''/ref/hg.fa'' [''/d/run{1}/S1.g.vcf''] ''/d/run{1}/''
          ''joint'' ''10.0'' process_log error_log
          (world_of [] [''/d/run{1}/''])) = Inr 0 \<and>
   events (snd (gather_gvcfs env_ok ''gatk.jar'' ''/ref/hg.fa'' [''/d/run{1}/S1.g.vcf'']
          ''/d/run{1}/'' ''joint'' ''10.0'' process_log error_log
          (world_of [] [''/d/run{1}/'']))) =
     [Log process_log INFO
        (PyStr (''java -jar gatk.jar -T GenotypeGVCFs -R /ref/hg.fa -stand_call_conf 10.0 ''
                @ ''--variant /d/run/ref/hg.fa/S1.g.vcf -o /d/run{1}/joint.vcf'')) [],
      Run [''java'', ''-jar'', ''gatk.jar'', ''-T'', ''GenotypeGVCFs'', ''-R'', ''/ref/hg.fa'',
           ''-stand_call_conf'', ''10.0'', ''--variant'', ''/d/run/ref/hg.fa/S1.g.vcf'', ''-o'',
           ''/d/run{1}/joint.vcf'']]"
  by code_simp

text \<open>A file name with a single brace: \<^verbatim>\<open>format\<close> raises and nothing is launched.\<close>

lemma gather_gvcfs_raises:
  "gather_gvcfs env_ok ''gatk.jar'' ''/ref/hg.fa'' [''/d/var/S}1.g.vcf''] ''/d/var/''
     ''joint'' ''10.0'' process_log error_log world_full =
   (Inl ValueError, world_full)"
  by (simp add: gather_gvcfs_def format_simps template_joint_def world_full_def)

section \<open>The paths handed from stage to stage\<close>

lemma env_ok_failing_at: "env_ok = env_failing_at (\<lambda>args. False)"
  by (simp add: env_ok_def env_failing_at_def)

text \<open>The alignment script writes the file the sorting stage reads.\<close>

lemma sorting_reads_aligned_sam:
  "sorting_of e config lib w =
     sort_sam_picard e (sorting_software config) (aligned_sam_of config lib)
       (input_dir config @ alignment_output_dir config @ sample_name lib @ ''_aligned_sorted.bam'')
       (fst (store_logs (logging config))) (fst (snd (store_logs (logging config)))) w"
  by (simp add: sorting_of_def aligned_sam_of_def)

text \<open>The seven commands of the variant-calling script for the sample library, when
  every tool succeeds: each reads what the one before wrote.\<close>

lemma pipeline_launches_sample:
  "launched (events (snd (calling_of env_ok cfg0 lib0 world_full))) =
     [Run [''java'', ''-jar'', ''picard.jar'', ''SortSam'', ''INPUT=/d/aln/S1_aligned.sam'',
           ''OUTPUT=/d/aln/S1_aligned_sorted.bam'', ''SORT_ORDER=coordinate''],
      Run [''java'', ''-jar'', ''picard.jar'', ''BuildBamIndex'',
           ''INPUT=/d/aln/S1_aligned_sorted.bam''],
      Run [''java'', ''-jar'', ''gatk.jar'', ''-T'', ''BaseRecalibrator'', ''-R'', ''/ref/hg.fa'', ''-I'',
           ''/d/aln/S1_aligned_sorted.bam'', ''-knownSites'', ''/ref/dbsnp.vcf'', ''-o'',
           ''/d/aln/S1_recal.table''],
      Run [''java'', ''-jar'', ''gatk.jar'', ''-T'', ''BaseRecalibrator'', ''-R'', ''/ref/hg.fa'', ''-I'',
           ''/d/aln/S1_aligned_sorted.bam'', ''-knownSites'', ''/ref/dbsnp.vcf'', ''-BQSR'',
           ''/d/aln/S1_recal.table'', ''-o'', ''/d/aln/S1_recal_post.table''],
      Run [''java'', ''-jar'', ''gatk.jar'', ''-T'', ''AnalyzeCovariates'', ''-R'', ''/ref/hg.fa'',
           ''-before'', ''/d/aln/S1_recal.table'', ''-after'', ''/d/aln/S1_recal_post.table'',
           ''-plots'', ''/d/aln/S1_recal_plots.pdf''],
      Run [''java'', ''-jar'', ''gatk.jar'', ''-T'', ''PrintReads'', ''-R'', ''/ref/hg.fa'', ''-I'',
           ''/d/aln/S1_aligned_sorted.bam'', ''-BQSR'', ''/d/aln/S1_recal.table'', ''-o'',
           ''/d/aln/S1_recal.bam''],
      Run [''java'', ''-jar'', ''gatk.jar'', ''-T'', ''HaplotypeCaller'', ''-R'', ''/ref/hg.fa'', ''-I'',
           ''/d/aln/S1_recal.bam'', ''--genotyping_mode'', ''DISCOVERY'', ''-stand_call_conf'',
           ''10.0'', ''--emitRefConfidence'', ''GVCF'', ''-o'', ''var/S1_raw_variants.g.vcf'']]"
proof -
  let ?e = "env_failing_at (\<lambda>args. False)"
  have sorted_files: "isfile (disk (snd (sorting_of ?e cfg0 lib0 world_full))) p" for p
    by (simp add: sorting_of_sample)
  have recal_files: "isfile (disk (snd (recalibration_of ?e cfg0 lib0 world_full))) p" for p
    by (simp add: recalibration_of_sample)
  have sorted: "launched (events (snd (sorting_of ?e cfg0 lib0 world_full))) =
      [Run [''java'', ''-jar'', ''picard.jar'', ''SortSam'', ''INPUT=/d/aln/S1_aligned.sam'',
            ''OUTPUT=/d/aln/S1_aligned_sorted.bam'', ''SORT_ORDER=coordinate''],
       Run [''java'', ''-jar'', ''picard.jar'', ''BuildBamIndex'',
            ''INPUT=/d/aln/S1_aligned_sorted.bam'']]"
    by (simp add: sorting_of_sample)
  have recal: "launched (events (snd (recalibration_of ?e cfg0 lib0 world_full))) =
      launched (events (snd (sorting_of ?e cfg0 lib0 world_full))) @
      [Run [''java'', ''-jar'', ''gatk.jar'', ''-T'', ''BaseRecalibrator'', ''-R'', ''/ref/hg.fa'', ''-I'',
            ''/d/aln/S1_aligned_sorted.bam'', ''-knownSites'', ''/ref/dbsnp.vcf'', ''-o'',
            ''/d/aln/S1_recal.table''],
       Run [''java'', ''-jar'', ''gatk.jar'', ''-T'', ''BaseRecalibrator'', ''-R'', ''/ref/hg.fa'', ''-I'',
            ''/d/aln/S1_aligned_sorted.bam'', ''-knownSites'', ''/ref/dbsnp.vcf'', ''-BQSR'',
            ''/d/aln/S1_recal.table'', ''-o'', ''/d/aln/S1_recal_post.table''],
       Run [''java'', ''-jar'', ''gatk.jar'', ''-T'', ''AnalyzeCovariates'', ''-R'', ''/ref/hg.fa'',
            ''-before'', ''/d/aln/S1_recal.table'', ''-after'', ''/d/aln/S1_recal_post.table'',
            ''-plots'', ''/d/aln/S1_recal_plots.pdf''],
       Run [''java'', ''-jar'', ''gatk.jar'', ''-T'', ''PrintReads'', ''-R'', ''/ref/hg.fa'', ''-I'',
            ''/d/aln/S1_aligned_sorted.bam'', ''-BQSR'', ''/d/aln/S1_recal.table'', ''-o'',
            ''/d/aln/S1_recal.bam'']]"
    unfolding recalibration_of_def env_failing_at_def
    by (subst recalibrate_tools(3))
      (use sorted_files in \<open>simp_all add: env_failing_at_def cfg0_def lib0_def silent_def args0\<close>)
  have called: "launched (events (snd (calling_of ?e cfg0 lib0 world_full))) =
      launched (events (snd (recalibration_of ?e cfg0 lib0 world_full))) @
      [Run [''java'', ''-jar'', ''gatk.jar'', ''-T'', ''HaplotypeCaller'', ''-R'', ''/ref/hg.fa'', ''-I'',
            ''/d/aln/S1_recal.bam'', ''--genotyping_mode'', ''DISCOVERY'', ''-stand_call_conf'',
            ''10.0'', ''--emitRefConfidence'', ''GVCF'', ''-o'', ''var/S1_raw_variants.g.vcf'']]"
    unfolding calling_of_def env_failing_at_def
    by (subst call_variants_tools(2))
      (use recal_files in \<open>simp_all add: env_failing_at_def cfg0_def lib0_def silent_def args0\<close>)
  show ?thesis
    by (simp add: env_ok_failing_at called recal sorted)
qed

text \<open>
  Claim C9, for the sample library. The paths agree from alignment to variant calling
  (the lemma above). The last link does not hold: with every tool succeeding, the last
  command of the variant-calling script writes \<^verbatim>\<open>var/S1_raw_variants.g.vcf\<close>, and the
  genotype-joining script asks for \<^verbatim>\<open>/d/var/S1.g.vcf\<close>: another directory (the input
  directory is put in front of it) and another file name.
\<close>

theorem variant_file_not_the_one_joined:
  "fst (main_germline env_ok cfg0 [''variant_calling.py'', ''lib1''] world_full) = Inr None \<and>
   last (launched (events (snd (main_germline env_ok cfg0 [''variant_calling.py'', ''lib1'']
                                  world_full)))) =
     Run [''java'', ''-jar'', ''gatk.jar'', ''-T'', ''HaplotypeCaller'', ''-R'', ''/ref/hg.fa'', ''-I'',
          ''/d/aln/S1_recal.bam'', ''--genotyping_mode'', ''DISCOVERY'', ''-stand_call_conf'',
          ''10.0'', ''--emitRefConfidence'', ''GVCF'', ''-o'', ''var/S1_raw_variants.g.vcf''] \<and>
   gvcf_list_of cfg0 = [''/d/var/S1.g.vcf''] \<and>
   launched (events (snd (main_joining env_ok cfg0 world_full))) =
     [Run [''java'', ''-jar'', ''gatk.jar'', ''-T'', ''GenotypeGVCFs'', ''-R'', ''/ref/hg.fa'',
           ''-stand_call_conf'', ''10.0'', ''--variant'', ''/d/var/S1.g.vcf'', ''-o'',
           ''/d/var/joint.vcf'']]"
proof -
  have lib: "map_of (libraries cfg0) ''lib1'' = Some lib0"
    by (simp add: cfg0_def)
  have passing: "fst (sorting_of env_ok cfg0 lib0 world_full) = 0"
    "fst (recalibration_of env_ok cfg0 lib0 world_full) = 0"
    "fst (calling_of env_ok cfg0 lib0 world_full) = 0"
    by (simp_all add: env_ok_failing_at sorting_of_sample recalibration_of_sample
        calling_of_sample)
  have germline: "main_germline env_ok cfg0 [''variant_calling.py'', ''lib1''] world_full =
                    (Inr None, snd (calling_of env_ok cfg0 lib0 world_full))"
    by (rule main_germline_all_stages_pass [OF lib passing])
  have joined: "gvcf_list_of cfg0 = [''/d/var/S1.g.vcf'']"
    by (simp add: gvcf_list_of_def cfg0_def lib0_def)
  have joining: "launched (events (snd (main_joining env_ok cfg0 world_full))) =
     [Run [''java'', ''-jar'', ''gatk.jar'', ''-T'', ''GenotypeGVCFs'', ''-R'', ''/ref/hg.fa'',
           ''-stand_call_conf'', ''10.0'', ''--variant'', ''/d/var/S1.g.vcf'', ''-o'',
           ''/d/var/joint.vcf'']]"
    by code_simp
  show ?thesis
    by (simp add: germline pipeline_launches_sample joined joining)
qed


end
